theory Spec2Isabelle
  imports Complex_Main
begin

section \<open>Numbers, references and enumerations\<close>

text \<open>
  Objects of the game are JavaScript objects compared by identity (\<open>indexOf\<close>,
  \<open>===\<close>, \<open>includes\<close>). The model names every object by a reference and keeps the
  objects themselves in a store, so that the arrays of the game hold references, as the
  arrays of the source do.
\<close>

type_synonym ref = nat

type_synonym Vec2 = "real \<times> real"

text \<open>
  A JavaScript number that is an integer, or \<open>NaN\<close>. \<open>parseInt\<close> of a character that
  is no digit and an array read out of range (\<open>undefined\<close>, which a comparison turns into
  \<open>NaN\<close>) give \<open>NaN\<close>; every comparison with \<open>NaN\<close> is false, also \<open>===\<close>.
\<close>

datatype jsnum = Num int | NaN

fun js_lt :: "jsnum \<Rightarrow> jsnum \<Rightarrow> bool" where
  "js_lt (Num a) (Num b) = (a < b)"
| "js_lt _ _ = False"

fun js_le :: "jsnum \<Rightarrow> jsnum \<Rightarrow> bool" where
  "js_le (Num a) (Num b) = (a \<le> b)"
| "js_le _ _ = False"

fun js_eq :: "jsnum \<Rightarrow> jsnum \<Rightarrow> bool" where
  "js_eq (Num a) (Num b) = (a = b)"
| "js_eq _ _ = False"

text \<open>
  \<open>ObjectKind\<close> of utils: the code under study compares against \<open>Player\<close>, \<open>Obstacle\<close>
  and \<open>Loot\<close> only; \<open>KindOther\<close> stands for every other kind (and for a missing \<open>kind\<close>).
\<close>

datatype ObjectKind = KindPlayer | KindObstacle | KindLoot | KindOther

datatype PickupMsgType = Full | AlreadyEquipped | BetterItemEquipped | Success

datatype WeaponType = Melee | Gun | OtherWeapon

section \<open>The collision filter\<close>

text \<open>
  What \<open>Fixture.prototype.shouldCollide\<close> reads of the user data of a fixture. The
  world boundaries carry \<open>{kind: Obstacle, layer: 0}\<close>, where \<open>isBullet\<close> is missing,
  hence falsy.
\<close>

record FixtureData =
  layer :: int
  kind :: ObjectKind
  isBullet :: bool

definition shouldCollide :: "FixtureData \<Rightarrow> FixtureData \<Rightarrow> bool" where
  "shouldCollide thisObject thatObject =
     (if layer thisObject \<noteq> layer thatObject then False
      else if kind thisObject = KindPlayer then
        kind thatObject = KindObstacle \<or> isBullet thatObject
      else if isBullet thisObject then
        kind thatObject \<noteq> KindLoot \<and>
        (kind thatObject = KindPlayer \<or> kind thatObject = KindObstacle \<or> isBullet thatObject)
      else if kind thisObject = KindLoot then
        kind thatObject = KindObstacle \<or> kind thatObject = KindLoot
      else False)"

section \<open>Strings\<close>

definition startsWith :: "string \<Rightarrow> string \<Rightarrow> bool" where
  "startsWith s pre = (take (length pre) s = pre)"

definition endsWith :: "string \<Rightarrow> string \<Rightarrow> bool" where
  "endsWith s suf = (length suf \<le> length s \<and> drop (length s - length suf) s = suf)"

text \<open>\<open>parseInt\<close> of a string of one character.\<close>

definition parseDigit :: "char \<Rightarrow> jsnum" where
  "parseDigit c =
     (if c = CHR ''0'' then Num 0 else if c = CHR ''1'' then Num 1
      else if c = CHR ''2'' then Num 2 else if c = CHR ''3'' then Num 3
      else if c = CHR ''4'' then Num 4 else if c = CHR ''5'' then Num 5
      else if c = CHR ''6'' then Num 6 else if c = CHR ''7'' then Num 7
      else if c = CHR ''8'' then Num 8 else if c = CHR ''9'' then Num 9
      else NaN)"

text \<open>
  \<open>parseInt(typeString.charAt(typeString.length - 1))\<close>: the last character of the
  identifier read as the level; \<open>charAt\<close> of an empty string is the empty string, whose
  \<open>parseInt\<close> is \<open>NaN\<close>.
\<close>

definition lastLevel :: "string \<Rightarrow> jsnum" where
  "lastLevel ts = (if ts = [] then NaN else parseDigit (last ts))"

text \<open>A number inside a template literal: its decimal digits, or \<open>NaN\<close>.\<close>

definition digitChar :: "nat \<Rightarrow> char" where
  "digitChar d = ''0123456789'' ! (d mod 10)"

function showNat :: "nat \<Rightarrow> string" where
  "showNat n = (if n < 10 then [digitChar n] else showNat (n div 10) @ [digitChar n])"
  by pat_completeness auto
termination
  by (relation "measure (\<lambda>n. n)") auto

declare showNat.simps [simp del]

definition showInt :: "int \<Rightarrow> string" where
  "showInt i = (if i < 0 then CHR ''-'' # showNat (nat (- i)) else showNat (nat i))"

fun showJs :: "jsnum \<Rightarrow> string" where
  "showJs (Num i) = showInt i"
| "showJs NaN = ''NaN''"

section \<open>Objects\<close>

text \<open>
  The classes of the game, each with the fields the code under study reads or writes.
  \<open>Loot\<close> is the class of loot.ts; \<open>position\<close> of a loot is its getter, the position of
  the physics body. \<open>Player\<close>, \<open>Obstacle\<close> and \<open>Bullet\<close> are declared outside the
  sources at hand; their records hold what game.ts and loot.ts use of them, with \<open>body\<close>
  for whether the object has a body.
\<close>

record Loot =
  typeString :: string
  typeId :: int
  layer :: int
  count :: int
  position :: Vec2
  oldPos :: Vec2
  interactable :: bool

datatype Collision = CollisionCircle real | CollisionRectangle Vec2 Vec2

record Obstacle =
  position :: Vec2
  layer :: int
  collision :: Collision
  body :: bool
  dead :: bool
  damageable :: bool
  interactable :: bool

record Bullet =
  shooter :: ref
  typeString :: string
  position :: Vec2
  direction :: Vec2
  shotSource :: int
  layer :: int

record WeaponSlot =
  typeString :: string
  typeId :: int

record Weapons =
  primaryGun :: WeaponSlot
  secondaryGun :: WeaponSlot
  melee :: WeaponSlot

record ActiveWeapon =
  weaponType :: WeaponType
  typeString :: string
  typeId :: int
  cooldown :: real

record ActionItem =
  typeString :: string
  typeId :: int
  useEnd :: real

record Player =
  isMobile :: bool
  touchMoveDir :: Vec2
  speed :: real
  diagonalSpeed :: real
  movingUp :: bool
  movingDown :: bool
  movingLeft :: bool
  movingRight :: bool
  moving :: bool
  movesSinceLastUpdate :: int
  position :: Vec2
  direction :: Vec2
  scale :: real
  layer :: int
  body :: bool
  dead :: bool
  damageable :: bool
  interactable :: bool
  disconnected :: bool
  deadPos :: Vec2
  health :: real
  boost :: real
  inventory :: "string \<Rightarrow> int"
  inventoryDirty :: bool
  inventoryEmpty :: bool
  scope :: string
  backpackLevel :: jsnum
  chestLevel :: jsnum
  helmetLevel :: jsnum
  weapons :: Weapons
  weaponsDirty :: bool
  activeWeapon :: ActiveWeapon
  shootStart :: bool
  shootHold :: bool
  actionDirty :: bool
  actionItem :: ActionItem
  actionType :: int
  actionSeq :: int
  usingItem :: bool
  animActive :: bool
  animType :: int
  animSeq :: int
  animTime :: int
  role :: int
  roleLost :: bool
  visibleObjects :: "ref list"
  fullDirtyObjects :: "ref list"
  partialDirtyObjects :: "ref list"
  deletedObjects :: "ref list"
  emotes :: "nat list"
  explosions :: "nat list"

datatype Obj =
    PlayerO Player
  | LootO Loot
  | ObstacleO Obstacle
  | BulletO Bullet
  | BoundaryO

section \<open>Packets and calls to collaborators\<close>

datatype Packet =
    JoinedPacket ref
  | MapPacket ref
  | UpdatePacket ref
  | AliveCountsPacket
  | PickupPacket string int PickupMsgType
  | KillPacket nat
  | RoleAnnouncementPacket nat

text \<open>
  Methods of classes that the sources at hand do not define are calls to collaborators.
  The model records each call, in order, with its arguments; what the callee does to its own
  object is no part of the model. \<open>SendData\<close> holds the packets that were serialized into
  the stream it sends, in the order of serialization.
\<close>

datatype Call =
    SendPacket ref Packet
  | SendData ref "Packet list"
  | CreateBody ref
  | DestroyBody ref
  | SetLinearVelocity ref
  | SetVelocity ref real real
  | DamageCall ref real ref
  | InteractCall ref ref
  | SetScope ref string
  | SwitchSlot ref int bool
  | UseItem ref string real int bool
  | RecalculateSpeed ref

record DamageRecord =
  damaged :: ref
  damager :: ref
  bullet :: ref

record CollisionRecord =
  collided :: bool
  distance :: real

section \<open>Data tables and helpers of utils\<close>

text \<open>
  The item, weapon and bullet tables and the constants are read-only data of utils; the code
  reads them by key. They enter the model as parameters: \<open>itemLevel t\<close> is
  \<open>Items[t].level\<close>, \<open>bagSizes t\<close> is \<open>Constants.bagSizes[t]\<close> (\<open>None\<close> where the key
  is missing), \<open>reloadTime t\<close> is \<open>Weapons[t].reloadTime\<close>, \<open>bulletDamage t\<close> is
  \<open>Bullets[t].damage\<close>, \<open>attackRad t\<close> and \<open>attackOffset t\<close> are \<open>Weapons[t].attack\<close>,
  \<open>typeToId t\<close> is the numeric identifier of \<open>t\<close>. Apart from \<open>bagSizes\<close>, whose
  entry the code tests before it reads it, every key that the code looks up is taken to be
  in its table.
\<close>

record Tables =
  itemLevel :: "string \<Rightarrow> int"
  bagSizes :: "string \<Rightarrow> int list option"
  typeToId :: "string \<Rightarrow> int"
  reloadTime :: "string \<Rightarrow> real"
  bulletDamage :: "string \<Rightarrow> real"
  attackRad :: "string \<Rightarrow> real"
  attackOffset :: "string \<Rightarrow> Vec2"
  shotSpread :: "string \<Rightarrow> real"
  barrelLength :: "string \<Rightarrow> real"
  bulletType :: "string \<Rightarrow> string"
  fireMode :: "string \<Rightarrow> string"
  touchLootRadMult :: real
  actionUseItem :: int
  actionReload :: int

text \<open>The geometric helpers of utils, as parameters too.\<close>

record Utils =
  distanceBetween :: "Vec2 \<Rightarrow> Vec2 \<Rightarrow> real"
  distanceToCircle :: "Vec2 \<Rightarrow> real \<Rightarrow> Vec2 \<Rightarrow> real \<Rightarrow> CollisionRecord"
  distanceToRect :: "Vec2 \<Rightarrow> Vec2 \<Rightarrow> Vec2 \<Rightarrow> real \<Rightarrow> CollisionRecord"
  unitVecToRadians :: "Vec2 \<Rightarrow> real"
  vec2Rotate :: "Vec2 \<Rightarrow> real \<Rightarrow> Vec2"
  degreesToRadians :: "real \<Rightarrow> real"

text \<open>
  Modelled from the spec: \<open>removeFrom\<close> of utils is not among the sources. The spec has
  an object removed from the registry and a projectile removed from the live set; on a
  JavaScript array that is the deletion of the element found by \<open>indexOf\<close>, the first
  occurrence, and nothing when the element is absent.
\<close>

definition removeFrom :: "ref list \<Rightarrow> ref \<Rightarrow> ref list" where
  "removeFrom array object = remove1 object array"

section \<open>The game\<close>

text \<open>
  The fields of \<open>Game\<close> keep their names. \<open>heap\<close> is the store of objects and
  \<open>nextRef\<close> the next unused reference (what \<open>new\<close> returns); \<open>world\<close> is the set of
  objects whose body is in the physics world; \<open>calls\<close> is the record of the calls to
  collaborators.
\<close>

record Game =
  objects :: "ref list"
  nextObjectId :: int
  partialDirtyObjects :: "ref list"
  fullDirtyObjects :: "ref list"
  deletedObjects :: "ref list"
  newObjects :: "ref list"
  loot :: "ref list"
  players :: "ref list"
  connectedPlayers :: "ref list"
  activePlayers :: "ref list"
  newPlayers :: "ref list"
  deletedPlayers :: "ref list"
  playerInfosDirty :: bool
  aliveCount :: int
  aliveCountDirty :: bool
  emotes :: "nat list"
  explosions :: "nat list"
  bullets :: "ref list"
  dirtyBullets :: "ref list"
  aliveCounts :: "Packet option"
  kills :: "Packet list"
  roleAnnouncements :: "Packet list"
  damageRecords :: "DamageRecord list"
  gasDirty :: bool
  gasCircleDirty :: bool
  active :: bool
  world :: "ref set"
  heap :: "ref \<Rightarrow> Obj option"
  nextRef :: ref
  calls :: "Call list"

definition call :: "Call \<Rightarrow> Game \<Rightarrow> Game" where
  "call c g = g\<lparr>calls := calls g @ [c]\<rparr>"

definition setObj :: "ref \<Rightarrow> Obj \<Rightarrow> Game \<Rightarrow> Game" where
  "setObj r ob g = g\<lparr>heap := (heap g)(r \<mapsto> ob)\<rparr>"

definition lootAt :: "Game \<Rightarrow> ref \<Rightarrow> Loot option" where
  "lootAt g r = (case heap g r of Some (LootO l) \<Rightarrow> Some l | _ \<Rightarrow> None)"

definition playerAt :: "Game \<Rightarrow> ref \<Rightarrow> Player option" where
  "playerAt g r = (case heap g r of Some (PlayerO pl) \<Rightarrow> Some pl | _ \<Rightarrow> None)"

section \<open>Loot\<close>

text \<open>
  The constructor of \<open>Loot\<close>: it sets the fields, creates a body in the world, gives the
  body a random velocity when \<open>spreadOut\<close> is set, and pushes the loot into \<open>game.loot\<close>.
  The identifier \<open>typeId\<close> is set by the constructor of the base class from the type
  string; that constructor is outside the sources, and nothing else of it is modelled.
\<close>

definition newLoot ::
  "Tables \<Rightarrow> string \<Rightarrow> Vec2 \<Rightarrow> int \<Rightarrow> int \<Rightarrow> bool \<Rightarrow> Game \<Rightarrow> ref \<times> Game" where
  "newLoot T ts pos lay cnt spreadOut g =
     (let this = nextRef g;
          l = \<lparr>Loot.typeString = ts, typeId = typeToId T ts, layer = lay, count = cnt,
               position = pos, oldPos = pos, interactable = True\<rparr>;
          g1 = g\<lparr>heap := (heap g)(this \<mapsto> LootO l), nextRef := Suc this,
                 world := insert this (world g), calls := calls g @ [CreateBody this]\<rparr>;
          g2 = (if spreadOut then call (SetLinearVelocity this) g1 else g1)
      in (this, g2\<lparr>loot := loot g2 @ [this]\<rparr>))"

text \<open>
  \<open>pickUpTieredItem\<close> is private and called with the three types below; \<open>getLevel\<close> and
  \<open>setLevel\<close> are the reads and writes of \<open>p[`${type}Level`]\<close>.
\<close>

datatype TieredType = backpack | chest | helmet

fun tierName :: "TieredType \<Rightarrow> string" where
  "tierName backpack = ''backpack''"
| "tierName chest = ''chest''"
| "tierName helmet = ''helmet''"

fun getLevel :: "TieredType \<Rightarrow> Player \<Rightarrow> jsnum" where
  "getLevel backpack pl = backpackLevel pl"
| "getLevel chest pl = chestLevel pl"
| "getLevel helmet pl = helmetLevel pl"

fun setLevel :: "TieredType \<Rightarrow> jsnum \<Rightarrow> Player \<Rightarrow> Player" where
  "setLevel backpack v pl = pl\<lparr>backpackLevel := v\<rparr>"
| "setLevel chest v pl = pl\<lparr>chestLevel := v\<rparr>"
| "setLevel helmet v pl = pl\<lparr>helmetLevel := v\<rparr>"

text \<open>
  A method called on a reference that holds no object of its class cannot be written in the
  typed source; there the model leaves the game as it is.
\<close>

definition pickUpTieredItem ::
  "Tables \<Rightarrow> ref \<Rightarrow> TieredType \<Rightarrow> ref \<Rightarrow> Game \<Rightarrow> PickupMsgType \<times> Game" where
  "pickUpTieredItem T this type p g =
     (case (lootAt g this, playerAt g p) of
        (Some l, Some pl) \<Rightarrow>
          (let oldLevel = getLevel type pl;
               newLevel = lastLevel (Loot.typeString l)
           in if js_lt newLevel oldLevel then (BetterItemEquipped, g)
              else if js_eq newLevel oldLevel then (AlreadyEquipped, g)
              else
                (let g1 = setObj p (PlayerO (setLevel type newLevel pl)) g
                 in if oldLevel \<noteq> Num 0 then
                      (let (oldItem, g2) =
                             newLoot T (tierName type @ ''0'' @ showJs oldLevel)
                               (Loot.position l) (Loot.layer l) 1 False g1
                       in (Success,
                           g2\<lparr>objects := objects g2 @ [oldItem],
                              fullDirtyObjects := fullDirtyObjects g2 @ [oldItem]\<rparr>))
                    else (Success, g1)))
      | _ \<Rightarrow> (Success, g))"

text \<open>
  The capacity \<open>Constants.bagSizes[typeString][p.backpackLevel]\<close>: an index outside
  the array reads \<open>undefined\<close>, which compares as \<open>NaN\<close>.
\<close>

definition capacityAt :: "int list \<Rightarrow> jsnum \<Rightarrow> jsnum" where
  "capacityAt sizes level =
     (case level of
        Num i \<Rightarrow> if 0 \<le> i \<and> nat i < length sizes then Num (sizes ! nat i) else NaN
      | NaN \<Rightarrow> NaN)"

text \<open>
  The branches of \<open>Loot.interact\<close> (lines 57 to 106). Each returns \<open>result\<close>,
  \<open>deleteItem\<close>, \<open>playerDirty\<close> and the game. The inventory of a player has an entry
  for every item. In the branch of the stacks, a capacity that is no number makes each of
  the three comparisons false, and the branch ends with the values it started with.
\<close>

type_synonym Outcome = "PickupMsgType \<times> bool \<times> bool \<times> Game"

definition pickUpScope :: "Tables \<Rightarrow> ref \<Rightarrow> Loot \<Rightarrow> ref \<Rightarrow> Player \<Rightarrow> Game \<Rightarrow> Outcome" where
  "pickUpScope T this l p pl g =
     (let ts = Loot.typeString l
      in if inventory pl ts > 0 then (AlreadyEquipped, True, False, g)
         else
           (let g1 = setObj p (PlayerO (pl\<lparr>inventory := (inventory pl)(ts := inventory pl ts + 1)\<rparr>)) g
            in if itemLevel T ts > itemLevel T (scope pl)
               then (Success, True, False, call (SetScope p ts) g1)
               else (Success, True, False, g1)))"

definition pickUpStack ::
  "int list \<Rightarrow> ref \<Rightarrow> Loot \<Rightarrow> ref \<Rightarrow> Player \<Rightarrow> Game \<Rightarrow> Outcome" where
  "pickUpStack sizes this l p pl g =
     (let ts = Loot.typeString l;
          currentCount = inventory pl ts
      in case capacityAt sizes (backpackLevel pl) of
           Num maxCapacity \<Rightarrow>
             if currentCount + Loot.count l \<le> maxCapacity then
               (Success, True, False,
                setObj p (PlayerO (pl\<lparr>inventory := (inventory pl)(ts := currentCount + Loot.count l)\<rparr>)) g)
             else if currentCount + 1 > maxCapacity then (Full, True, False, g)
             else if currentCount + Loot.count l > maxCapacity then
               (let g1 = setObj p (PlayerO (pl\<lparr>inventory := (inventory pl)(ts := maxCapacity)\<rparr>)) g;
                    g2 = setObj this (LootO (l\<lparr>Loot.count := (currentCount + Loot.count l) - maxCapacity\<rparr>)) g1
                in (Success, False, False, g2\<lparr>fullDirtyObjects := fullDirtyObjects g2 @ [this]\<rparr>))
             else (Success, True, False, g)
         | NaN \<Rightarrow> (Success, True, False, g))"

definition pickUpWeapon :: "Tables \<Rightarrow> ref \<Rightarrow> Loot \<Rightarrow> ref \<Rightarrow> Player \<Rightarrow> Game \<Rightarrow> Outcome" where
  "pickUpWeapon T this l p pl g =
     (let ts = Loot.typeString l;
          slot = \<lparr>WeaponSlot.typeString = ts, typeId = Loot.typeId l\<rparr>;
          w = weapons pl
      in if WeaponSlot.typeId (primaryGun w) = 0 then
           (Success, True, True,
            call (UseItem p ts (reloadTime T ts) (actionReload T) True)
              (call (SwitchSlot p 0 True)
                (setObj p (PlayerO (pl\<lparr>weapons := w\<lparr>primaryGun := slot\<rparr>, weaponsDirty := True\<rparr>)) g)))
         else if WeaponSlot.typeId (primaryGun w) \<noteq> 0 \<and> WeaponSlot.typeId (secondaryGun w) = 0 then
           (Success, True, True,
            call (UseItem p ts (reloadTime T ts) (actionReload T) True)
              (call (SwitchSlot p 1 True)
                (setObj p (PlayerO (pl\<lparr>weapons := w\<lparr>secondaryGun := slot\<rparr>, weaponsDirty := True\<rparr>)) g)))
         else (Full, True, True, setObj p (PlayerO (pl\<lparr>weaponsDirty := True\<rparr>)) g))"

definition interactBranch :: "Tables \<Rightarrow> ref \<Rightarrow> Loot \<Rightarrow> ref \<Rightarrow> Player \<Rightarrow> Game \<Rightarrow> Outcome" where
  "interactBranch T this l p pl g =
     (let ts = Loot.typeString l
      in if endsWith ts ''scope'' then pickUpScope T this l p pl g
         else if startsWith ts ''backpack'' then
           (let (res, g1) = pickUpTieredItem T this backpack p g in (res, True, True, g1))
         else if startsWith ts ''chest'' then
           (let (res, g1) = pickUpTieredItem T this chest p g in (res, True, True, g1))
         else if startsWith ts ''helmet'' then
           (let (res, g1) = pickUpTieredItem T this helmet p g in (res, True, True, g1))
         else case bagSizes T ts of
                Some sizes \<Rightarrow> pickUpStack sizes this l p pl g
              | None \<Rightarrow> pickUpWeapon T this l p pl g)"

text \<open>
  The end of \<open>Loot.interact\<close> (lines 108 to 125): the pickup packet, the deletion of the
  loot and the dirty marks of the player. The packet reads \<open>this.count\<close> after the branch.
\<close>

definition sendPickup :: "ref \<Rightarrow> ref \<Rightarrow> PickupMsgType \<Rightarrow> Game \<Rightarrow> Game" where
  "sendPickup this p res g =
     (case (lootAt g this, playerAt g p) of
        (Some l, Some pl) \<Rightarrow>
          if \<not> (isMobile pl \<and> res \<noteq> Success)
          then call (SendPacket p (PickupPacket (Loot.typeString l) (Loot.count l) res)) g
          else g
      | _ \<Rightarrow> g)"

definition deleteLoot :: "ref \<Rightarrow> Game \<Rightarrow> Game" where
  "deleteLoot this g =
     (let g1 = g\<lparr>objects := removeFrom (objects g) this,
                 loot := removeFrom (loot g) this,
                 deletedObjects := deletedObjects g @ [this],
                 world := world g - {this},
                 calls := calls g @ [DestroyBody this]\<rparr>
      in case lootAt g1 this of
           Some l \<Rightarrow> setObj this (LootO (l\<lparr>Loot.interactable := False\<rparr>)) g1
         | None \<Rightarrow> g1)"

definition markPlayerDirty :: "ref \<Rightarrow> Game \<Rightarrow> Game" where
  "markPlayerDirty p g =
     (let g1 = g\<lparr>fullDirtyObjects := fullDirtyObjects g @ [p]\<rparr>
      in case playerAt g1 p of
           Some pl \<Rightarrow>
             setObj p (PlayerO (pl\<lparr>Player.fullDirtyObjects := Player.fullDirtyObjects pl @ [p]\<rparr>)) g1
         | None \<Rightarrow> g1)"

definition markInventory :: "ref \<Rightarrow> Game \<Rightarrow> Game" where
  "markInventory p g =
     (case playerAt g p of
        Some pl \<Rightarrow> setObj p (PlayerO (pl\<lparr>inventoryDirty := True, inventoryEmpty := False\<rparr>)) g
      | None \<Rightarrow> g)"

definition finishPickup :: "ref \<Rightarrow> ref \<Rightarrow> Outcome \<Rightarrow> Game" where
  "finishPickup this p out =
     (case out of (res, deleteItem, playerDirty, g1) \<Rightarrow>
        (let g2 = sendPickup this p res g1
         in if res = Success then
              (let g3 = (if deleteItem then deleteLoot this g2 else g2);
                   g4 = (if playerDirty then markPlayerDirty p g3 else g3)
               in markInventory p g4)
            else g2))"

text \<open>The calls that send a pickup packet.\<close>

fun isPickupPacket :: "Call \<Rightarrow> bool" where
  "isPickupPacket (SendPacket r (PickupPacket ts n res)) = True"
| "isPickupPacket _ = False"

definition interact :: "Tables \<Rightarrow> ref \<Rightarrow> ref \<Rightarrow> Game \<Rightarrow> Game" where
  "interact T this p g =
     (case (lootAt g this, playerAt g p) of
        (Some l, Some pl) \<Rightarrow> finishPickup this p (interactBranch T this l p pl g)
      | _ \<Rightarrow> g)"

section \<open>The physics settings and the stop flag\<close>

text \<open>
  The handler of \<open>pre-solve\<close> (lines 135 to 139) sets \<open>Settings.maxLinearCorrection\<close> from
  the kinds of the two objects in contact; \<open>end\<close> clears the flag that the tick tests.
\<close>

definition maxLinearCorrection :: "ObjectKind \<Rightarrow> ObjectKind \<Rightarrow> real" where
  "maxLinearCorrection kindA kindB = (if kindA = KindLoot \<or> kindB = KindLoot then 2 / 10 else 0)"

definition endGame :: "Game \<Rightarrow> Game" where
  "endGame g = g\<lparr>active := False\<rparr>"

section \<open>One tick\<close>

text \<open>
  What a tick takes from outside the sources: the clock, the outcome of the physics step
  (the bodies it moved and the contacts that began, each a pair of the user data of its two
  fixtures), the random number generator, and two methods of \<open>Player\<close> whose results the
  tick reads, \<open>weaponCooldownOver\<close> and the set that \<open>updateVisibleObjects\<close> computes.
\<close>

record Step =
  now :: real
  moved :: "ref \<Rightarrow> Vec2 option"
  contacts :: "(ref \<times> ref) list"
  randomFloat :: "real \<Rightarrow> real \<Rightarrow> real"
  weaponCooldownOver :: "Player \<Rightarrow> bool"
  updateVisibleObjects :: "Game \<Rightarrow> ref \<Rightarrow> ref list"

definition setPlayer :: "ref \<Rightarrow> Player \<Rightarrow> Game \<Rightarrow> Game" where
  "setPlayer p pl g = setObj p (PlayerO pl) g"

text \<open>
  \<open>damageable\<close> of an object. Loot never sets the flag and a bullet and a world boundary
  carry none, so it is false for them.
\<close>

fun damageableOf :: "Obj \<Rightarrow> bool" where
  "damageableOf (PlayerO pl) = Player.damageable pl"
| "damageableOf (ObstacleO ob) = Obstacle.damageable ob"
| "damageableOf _ = False"

text \<open>The handler of \<open>begin-contact\<close> (lines 122 to 130).\<close>

definition beginContact :: "ref \<Rightarrow> ref \<Rightarrow> Game \<Rightarrow> Game" where
  "beginContact objectA objectB g =
     (case (heap g objectA, heap g objectB) of
        (Some (BulletO ba), Some ob) \<Rightarrow>
          if damageableOf ob
          then g\<lparr>damageRecords := damageRecords g @
                   [\<lparr>damaged = objectB, damager = shooter ba, bullet = objectA\<rparr>]\<rparr>
          else g
      | (Some oa, Some (BulletO bb)) \<Rightarrow>
          if damageableOf oa
          then g\<lparr>damageRecords := damageRecords g @
                   [\<lparr>damaged = objectA, damager = shooter bb, bullet = objectB\<rparr>]\<rparr>
          else g
      | _ \<Rightarrow> g)"

definition moveObj :: "Vec2 \<Rightarrow> Obj \<Rightarrow> Obj" where
  "moveObj v ob =
     (case ob of
        PlayerO pl \<Rightarrow> PlayerO (pl\<lparr>Player.position := v\<rparr>)
      | LootO l \<Rightarrow> LootO (l\<lparr>Loot.position := v\<rparr>)
      | BulletO b \<Rightarrow> BulletO (b\<lparr>Bullet.position := v\<rparr>)
      | other \<Rightarrow> other)"

text \<open>\<open>this.world.step(30)\<close>: the bodies move, and the contacts that begin are reported.\<close>

definition worldStep :: "Step \<Rightarrow> Game \<Rightarrow> Game" where
  "worldStep S g =
     (let g1 = g\<lparr>heap := (\<lambda>r. case moved S r of
                                  Some v \<Rightarrow> map_option (moveObj v) (heap g r)
                                | None \<Rightarrow> heap g r)\<rparr>
      in fold (\<lambda>(a, b). beginContact a b) (contacts S) g1)"

definition createAliveCounts :: "Game \<Rightarrow> Game" where
  "createAliveCounts g = (if aliveCountDirty g then g\<lparr>aliveCounts := Some AliveCountsPacket\<rparr> else g)"

text \<open>The loop over \<open>this.loot\<close> (lines 186 to 191).\<close>

definition updateLootPosition :: "ref \<Rightarrow> Game \<Rightarrow> Game" where
  "updateLootPosition r g =
     (case lootAt g r of
        Some l \<Rightarrow>
          (let g1 = (if oldPos l \<noteq> Loot.position l
                     then g\<lparr>partialDirtyObjects := partialDirtyObjects g @ [r]\<rparr> else g)
           in setObj r (LootO (l\<lparr>oldPos := Loot.position l\<rparr>)) g1)
      | None \<Rightarrow> g)"

definition updateLootPositions :: "Game \<Rightarrow> Game" where
  "updateLootPositions g = fold updateLootPosition (loot g) g"

text \<open>The loop over \<open>this.damageRecords\<close> (lines 193 to 197).\<close>

definition applyDamageRecord :: "Tables \<Rightarrow> DamageRecord \<Rightarrow> Game \<Rightarrow> Game" where
  "applyDamageRecord T damageRecord g =
     (case heap g (bullet damageRecord) of
        Some (BulletO b) \<Rightarrow>
          g\<lparr>calls := calls g @
               [DamageCall (damaged damageRecord) (bulletDamage T (Bullet.typeString b))
                  (damager damageRecord),
                DestroyBody (bullet damageRecord)],
            world := world g - {bullet damageRecord},
            bullets := removeFrom (bullets g) (bullet damageRecord)\<rparr>
      | _ \<Rightarrow> g)"

text \<open>
  What one record makes the loop do, read off the game: the damage of the type of its bullet,
  and the two calls, \<open>damaged.damage\<close> and \<open>world.destroyBody\<close>.
\<close>

definition recordDamage :: "Tables \<Rightarrow> Game \<Rightarrow> DamageRecord \<Rightarrow> real" where
  "recordDamage T g damageRecord =
     (case heap g (bullet damageRecord) of
        Some (BulletO b) \<Rightarrow> bulletDamage T (Bullet.typeString b)
      | _ \<Rightarrow> 0)"

definition recordCalls :: "Tables \<Rightarrow> Game \<Rightarrow> DamageRecord \<Rightarrow> Call list" where
  "recordCalls T g damageRecord =
     [DamageCall (damaged damageRecord) (recordDamage T g damageRecord) (damager damageRecord),
      DestroyBody (bullet damageRecord)]"

definition drainDamageRecords :: "Tables \<Rightarrow> Game \<Rightarrow> Game" where
  "drainDamageRecords T g = fold (applyDamageRecord T) (damageRecords g) g"

subsection \<open>The first loop: one active player\<close>

definition movementVelocity :: "Player \<Rightarrow> real \<times> real" where
  "movementVelocity pl =
     (if isMobile pl then (fst (touchMoveDir pl) * speed pl, snd (touchMoveDir pl) * speed pl)
      else if movingUp pl \<and> movingLeft pl then (- diagonalSpeed pl, diagonalSpeed pl)
      else if movingUp pl \<and> movingRight pl then (diagonalSpeed pl, diagonalSpeed pl)
      else if movingDown pl \<and> movingLeft pl then (- diagonalSpeed pl, - diagonalSpeed pl)
      else if movingDown pl \<and> movingRight pl then (diagonalSpeed pl, - diagonalSpeed pl)
      else if movingUp pl then (0, speed pl)
      else if movingDown pl then (0, - speed pl)
      else if movingLeft pl then (- speed pl, 0)
      else if movingRight pl then (speed pl, 0)
      else (0, 0))"

definition movement :: "ref \<Rightarrow> Game \<Rightarrow> Game" where
  "movement p g =
     (case playerAt g p of
        Some pl \<Rightarrow> (case movementVelocity pl of (vx, vy) \<Rightarrow> call (SetVelocity p vx vy) g)
      | None \<Rightarrow> g)"

text \<open>Lines 218 to 224: a player on mobile picks up the loot it sees and is close to.\<close>

definition touchLoot :: "Tables \<Rightarrow> Utils \<Rightarrow> ref \<Rightarrow> ref \<Rightarrow> Game \<Rightarrow> Game" where
  "touchLoot T U p object g =
     (case (lootAt g object, playerAt g p) of
        (Some l, Some pl) \<Rightarrow>
          if distanceBetween U (Player.position pl) (Loot.position l)
               \<le> scale pl + touchLootRadMult T
          then interact T object p g else g
      | _ \<Rightarrow> g)"

definition pickUpNearby :: "Tables \<Rightarrow> Utils \<Rightarrow> ref \<Rightarrow> Game \<Rightarrow> Game" where
  "pickUpNearby T U p g =
     (case playerAt g p of
        Some pl \<Rightarrow> if isMobile pl then fold (touchLoot T U p) (visibleObjects pl) g else g
      | None \<Rightarrow> g)"

definition adrenaline :: "Player \<Rightarrow> Player" where
  "adrenaline pl =
     (let pl1 = (if boost pl > 0 then pl\<lparr>boost := boost pl - 1136 / 100000\<rparr> else pl);
          b = boost pl1
      in if b > 0 \<and> b \<le> 25 then pl1\<lparr>health := health pl1 + 50303 / 10000000\<rparr>
         else if b > 25 \<and> b \<le> 50 then pl1\<lparr>health := health pl1 + 12624 / 1000000\<rparr>
         else if b > 50 \<and> b \<le> 875 / 10 then pl1\<lparr>health := health pl1 + 1515 / 100000\<rparr>
         else if b > 875 / 10 \<and> b \<le> 100 then pl1\<lparr>health := health pl1 + 1766 / 100000\<rparr>
         else pl1)"

definition useItemEffect :: "Player \<Rightarrow> Player" where
  "useItemEffect pl =
     (let ts = ActionItem.typeString (actionItem pl);
          pl1 = (if ts = ''bandage'' then pl\<lparr>health := health pl + 15\<rparr>
                 else if ts = ''healthkit'' then pl\<lparr>health := 100\<rparr>
                 else if ts = ''soda'' then pl\<lparr>boost := boost pl + 25\<rparr>
                 else if ts = ''painkiller'' then pl\<lparr>boost := boost pl + 50\<rparr>
                 else pl)
      in pl1\<lparr>inventory := (inventory pl1)(ts := inventory pl1 ts - 1),
             inventoryDirty := True, usingItem := False\<rparr>)"

definition actionLogic :: "Tables \<Rightarrow> Step \<Rightarrow> ref \<Rightarrow> Game \<Rightarrow> Game" where
  "actionLogic T S p g =
     (case playerAt g p of
        Some pl \<Rightarrow>
          if actionDirty pl \<and> now S - useEnd (actionItem pl) > 0 then
            (let used = (actionType pl = actionUseItem T);
                 pl1 = (if used then useItemEffect pl else pl);
                 pl2 = pl1\<lparr>actionItem := (actionItem pl1)\<lparr>ActionItem.typeString := [], ActionItem.typeId := 0\<rparr>,
                           actionDirty := False, actionType := 0, actionSeq := 0,
                           Player.fullDirtyObjects := Player.fullDirtyObjects pl1 @ [p]\<rparr>;
                 g1 = (if used then call (RecalculateSpeed p) g else g)
             in setPlayer p pl2 (g1\<lparr>fullDirtyObjects := fullDirtyObjects g1 @ [p]\<rparr>))
          else g
      | None \<Rightarrow> g)"

definition adrenalineLogic :: "ref \<Rightarrow> Game \<Rightarrow> Game" where
  "adrenalineLogic p g =
     (case playerAt g p of Some pl \<Rightarrow> setPlayer p (adrenaline pl) g | None \<Rightarrow> g)"

text \<open>\<open>Number.MAX_VALUE\<close>, the largest finite double.\<close>

definition Number_MAX_VALUE :: real where
  "Number_MAX_VALUE = (2 - 1 / 2 ^ 52) * 2 ^ 1023"

text \<open>
  The melee scan (lines 283 to 307). \<open>meleeRecord\<close> is the body of the loop up to the
  collision record: \<open>None\<close> for an object the guard of line 291 skips, else the record of
  the distance test of the object's class and shape. Only players and obstacles can be
  damageable and the collision of an obstacle is a circle or a rectangle, so the record is
  defined wherever line 302 reads it. \<open>scanStep\<close> is the update of \<open>minDist\<close> and
  \<open>closestObject\<close>.
\<close>

definition meleeRecord ::
  "Utils \<Rightarrow> Game \<Rightarrow> ref \<Rightarrow> Vec2 \<Rightarrow> real \<Rightarrow> ref \<Rightarrow> CollisionRecord option" where
  "meleeRecord U g p hitPos radius object =
     (case heap g object of
        Some (ObstacleO ob) \<Rightarrow>
          if Obstacle.body ob \<and> \<not> Obstacle.dead ob \<and> object \<noteq> p \<and> Obstacle.damageable ob then
            (case collision ob of
               CollisionCircle rad \<Rightarrow>
                 Some (distanceToCircle U (Obstacle.position ob) rad hitPos radius)
             | CollisionRectangle mn mx \<Rightarrow> Some (distanceToRect U mn mx hitPos radius))
          else None
      | Some (PlayerO q) \<Rightarrow>
          if Player.body q \<and> \<not> Player.dead q \<and> object \<noteq> p \<and> Player.damageable q then
            Some (distanceToCircle U (Player.position q) (scale q) hitPos radius)
          else None
      | _ \<Rightarrow> None)"

definition scanStep ::
  "(ref \<Rightarrow> CollisionRecord option) \<Rightarrow> ref \<Rightarrow> real \<times> ref option \<Rightarrow> real \<times> ref option" where
  "scanStep rec object acc =
     (case acc of (minDist, closestObject) \<Rightarrow>
        (case rec object of
           Some r \<Rightarrow>
             if collided r \<and> distance r < minDist then (distance r, Some object)
             else (minDist, closestObject)
         | None \<Rightarrow> (minDist, closestObject)))"

definition closestTarget :: "(ref \<Rightarrow> CollisionRecord option) \<Rightarrow> ref list \<Rightarrow> ref option" where
  "closestTarget rec visible = snd (fold (scanStep rec) visible (Number_MAX_VALUE, None))"

definition meleeHitPosition :: "Tables \<Rightarrow> Utils \<Rightarrow> Player \<Rightarrow> Vec2" where
  "meleeHitPosition T U pl =
     (let weapon = WeaponSlot.typeString (melee (weapons pl));
          angle = unitVecToRadians U (Player.direction pl);
          offset = (fst (attackOffset T weapon) + 1 * (scale pl - 1),
                    snd (attackOffset T weapon) + 0 * (scale pl - 1));
          rot = vec2Rotate U offset angle
      in (fst (Player.position pl) + fst rot, snd (Player.position pl) + snd rot))"

fun interactableOf :: "Obj \<Rightarrow> bool" where
  "interactableOf (PlayerO pl) = Player.interactable pl"
| "interactableOf (ObstacleO ob) = Obstacle.interactable ob"
| "interactableOf (LootO l) = Loot.interactable l"
| "interactableOf _ = False"

definition startPunch :: "ref \<Rightarrow> Game \<Rightarrow> Game" where
  "startPunch p g =
     (case playerAt g p of
        Some pl \<Rightarrow>
          if \<not> animActive pl then
            setPlayer p
              (pl\<lparr>animActive := True, animType := 1, animSeq := 1, animTime := 0,
                  Player.fullDirtyObjects := Player.fullDirtyObjects pl @ [p]\<rparr>)
              (g\<lparr>fullDirtyObjects := fullDirtyObjects g @ [p]\<rparr>)
          else g
      | None \<Rightarrow> g)"

definition meleeTarget :: "Tables \<Rightarrow> Utils \<Rightarrow> ref \<Rightarrow> Game \<Rightarrow> ref option" where
  "meleeTarget T U p g =
     (case playerAt g p of
        Some pl \<Rightarrow>
          closestTarget
            (meleeRecord U g p (meleeHitPosition T U pl)
               (attackRad T (WeaponSlot.typeString (melee (weapons pl)))))
            (visibleObjects pl)
      | None \<Rightarrow> None)"

definition hitTarget :: "ref \<Rightarrow> ref option \<Rightarrow> Game \<Rightarrow> Game" where
  "hitTarget p closestObject g =
     (case closestObject of
        Some c \<Rightarrow>
          (let g1 = call (DamageCall c 24 p) g
           in case heap g1 c of
                Some ob \<Rightarrow> if interactableOf ob then call (InteractCall c p) g1 else g1
              | None \<Rightarrow> g1)
      | None \<Rightarrow> g)"

definition meleeAttack :: "Tables \<Rightarrow> Utils \<Rightarrow> ref \<Rightarrow> Game \<Rightarrow> Game" where
  "meleeAttack T U p g =
     (let g1 = startPunch p g in hitTarget p (meleeTarget T U p g1) g1)"

text \<open>
  The gun branch (lines 313 to 326 and 332 to 345). The constructor of \<open>Bullet\<close> is outside
  the sources; the model keeps the arguments it is given.
\<close>

definition fireBullet :: "Tables \<Rightarrow> Utils \<Rightarrow> Step \<Rightarrow> ref \<Rightarrow> Game \<Rightarrow> Game" where
  "fireBullet T U S p g =
     (case playerAt g p of
        Some pl \<Rightarrow>
          (let weapon = ActiveWeapon.typeString (activeWeapon pl);
               spread = degreesToRadians U (shotSpread T weapon);
               angle = unitVecToRadians U (Player.direction pl) + randomFloat S (- spread) spread;
               b = \<lparr>shooter = p, typeString = bulletType T weapon,
                    position = (fst (Player.position pl) + barrelLength T weapon * cos angle,
                                snd (Player.position pl) + barrelLength T weapon * sin angle),
                    direction = Player.direction pl,
                    shotSource = ActiveWeapon.typeId (activeWeapon pl), layer = 0\<rparr>;
               r = nextRef g
           in g\<lparr>heap := (heap g)(r \<mapsto> BulletO b), nextRef := Suc r,
                bullets := bullets g @ [r], dirtyBullets := dirtyBullets g @ [r]\<rparr>)
      | None \<Rightarrow> g)"

definition setCooldown :: "Step \<Rightarrow> ref \<Rightarrow> Game \<Rightarrow> Game" where
  "setCooldown S p g =
     (case playerAt g p of
        Some pl \<Rightarrow> setPlayer p (pl\<lparr>activeWeapon := (activeWeapon pl)\<lparr>cooldown := now S\<rparr>\<rparr>) g
      | None \<Rightarrow> g)"

definition weaponLogic :: "Tables \<Rightarrow> Utils \<Rightarrow> Step \<Rightarrow> ref \<Rightarrow> Game \<Rightarrow> Game" where
  "weaponLogic T U S p g =
     (case playerAt g p of
        Some pl \<Rightarrow>
          if shootStart pl then
            (let pl1 = pl\<lparr>shootStart := False\<rparr>;
                 g1 = setPlayer p pl1 g
             in if weaponCooldownOver S pl1 then
                  (let g2 = setCooldown S p g1
                   in if weaponType (activeWeapon pl1) = Melee then meleeAttack T U p g2
                      else if weaponType (activeWeapon pl1) = Gun then fireBullet T U S p g2
                      else g2)
                else g1)
          else if shootHold pl \<and> weaponType (activeWeapon pl) = Gun
                  \<and> fireMode T (ActiveWeapon.typeString (activeWeapon pl)) = ''auto'' then
            (if weaponCooldownOver S pl then fireBullet T U S p (setCooldown S p g) else g)
          else g
      | None \<Rightarrow> g)"

text \<open>The animation logic (lines 349 to 361).\<close>

definition animationLogic :: "ref \<Rightarrow> Game \<Rightarrow> Game" where
  "animationLogic p g =
     (case playerAt g p of
        Some pl \<Rightarrow>
          (let pl1 = (if animActive pl then pl\<lparr>animTime := animTime pl + 1\<rparr> else pl)
           in if animTime pl1 > 8 then
                setPlayer p
                  (pl1\<lparr>animActive := False,
                       Player.fullDirtyObjects := Player.fullDirtyObjects pl1 @ [p],
                       animType := 0, animSeq := 0, animTime := - 1, moving := False\<rparr>)
                  (g\<lparr>fullDirtyObjects := fullDirtyObjects g @ [p]\<rparr>)
              else if moving pl1 then
                setPlayer p
                  (pl1\<lparr>Player.partialDirtyObjects := Player.partialDirtyObjects pl1 @ [p],
                       moving := False\<rparr>)
                  (g\<lparr>partialDirtyObjects := partialDirtyObjects g @ [p]\<rparr>)
              else setPlayer p (pl1\<lparr>moving := False\<rparr>) g)
      | None \<Rightarrow> g)"

definition playerLogic :: "Tables \<Rightarrow> Utils \<Rightarrow> Step \<Rightarrow> ref \<Rightarrow> Game \<Rightarrow> Game" where
  "playerLogic T U S p g =
     animationLogic p
       (weaponLogic T U S p
         (actionLogic T S p
           (adrenalineLogic p
             (pickUpNearby T U p
               (movement p g)))))"

definition firstLoop :: "Tables \<Rightarrow> Utils \<Rightarrow> Step \<Rightarrow> Game \<Rightarrow> Game" where
  "firstLoop T U S g = fold (playerLogic T U S) (activePlayers g) g"

subsection \<open>The second loop: one connected player\<close>

definition refreshVisible :: "Step \<Rightarrow> ref \<Rightarrow> Game \<Rightarrow> Game" where
  "refreshVisible S p g =
     (case playerAt g p of
        Some pl \<Rightarrow>
          if movesSinceLastUpdate pl > 8 \<or> fullDirtyObjects g \<noteq> [] \<or> partialDirtyObjects g \<noteq> []
               \<or> deletedObjects g \<noteq> []
          then setPlayer p (pl\<lparr>visibleObjects := updateVisibleObjects S g p\<rparr>) g
          else g
      | None \<Rightarrow> g)"

text \<open>
  Lines 372 to 406: the role, the emotes and explosions of the tick, and the three dirty
  lists of the game copied into the lists of the connection.
\<close>

definition connectionDelta :: "Game \<Rightarrow> Player \<Rightarrow> Player" where
  "connectionDelta g pl =
     (let pl1 = (if roleLost pl then pl\<lparr>roleLost := False, role := 0\<rparr> else pl);
          pl2 = (if emotes g \<noteq> [] then pl1\<lparr>Player.emotes := emotes g\<rparr> else pl1);
          pl3 = (if explosions g \<noteq> [] then pl2\<lparr>Player.explosions := explosions g\<rparr> else pl2);
          pl4 = pl3\<lparr>Player.fullDirtyObjects := Player.fullDirtyObjects pl3 @
                      filter (\<lambda>object. object \<in> set (visibleObjects pl3)) (fullDirtyObjects g)\<rparr>;
          pl5 = pl4\<lparr>Player.partialDirtyObjects := Player.partialDirtyObjects pl4 @
                      filter (\<lambda>object. object \<in> set (visibleObjects pl4)) (partialDirtyObjects g)\<rparr>
      in pl5\<lparr>Player.deletedObjects := Player.deletedObjects pl5 @ deletedObjects g\<rparr>)"

definition sendPackets :: "ref \<Rightarrow> Game \<Rightarrow> Game" where
  "sendPackets p g =
     g\<lparr>calls := calls g @ [SendPacket p (UpdatePacket p)] @
          (if aliveCountDirty g
           then (case aliveCounts g of Some pk \<Rightarrow> [SendPacket p pk] | None \<Rightarrow> [])
           else []) @
          map (SendPacket p) (kills g) @
          map (SendPacket p) (roleAnnouncements g)\<rparr>"

definition connectionLogic :: "Step \<Rightarrow> ref \<Rightarrow> Game \<Rightarrow> Game" where
  "connectionLogic S p g =
     (let g1 = refreshVisible S p g
      in case playerAt g1 p of
           Some pl \<Rightarrow> sendPackets p (setPlayer p (connectionDelta g1 pl) g1)
         | None \<Rightarrow> g1)"

definition secondLoop :: "Step \<Rightarrow> Game \<Rightarrow> Game" where
  "secondLoop S g = fold (connectionLogic S) (connectedPlayers g) g"

text \<open>Lines 415 to 433.\<close>

definition resetEverything :: "Game \<Rightarrow> Game" where
  "resetEverything g =
     g\<lparr>fullDirtyObjects := [], partialDirtyObjects := [], deletedObjects := [],
       newPlayers := [], deletedPlayers := [],
       emotes := [], explosions := [], dirtyBullets := [], kills := [],
       roleAnnouncements := [], damageRecords := [],
       gasDirty := False, gasCircleDirty := False, aliveCountDirty := False\<rparr>"

text \<open>
  The state of the game when the second loop starts, and the whole callback of \<open>tick\<close>.
  A game that is no longer active returns at once and schedules no further tick; the log of
  tick times and the scheduling of the next tick are left to the scheduler.
\<close>

definition beforeSend :: "Tables \<Rightarrow> Utils \<Rightarrow> Step \<Rightarrow> Game \<Rightarrow> Game" where
  "beforeSend T U S g =
     firstLoop T U S
       (drainDamageRecords T
         (updateLootPositions
           (createAliveCounts
             (worldStep S g))))"

definition tick :: "Tables \<Rightarrow> Utils \<Rightarrow> Step \<Rightarrow> Game \<Rightarrow> Game" where
  "tick T U S g =
     (if \<not> active g then g
      else resetEverything (secondLoop S (beforeSend T U S g)))"

section \<open>Joining and leaving\<close>

text \<open>
  \<open>addPlayer\<close>: \<open>spawnPosition\<close> is the fixed or random spawn position, \<open>mk\<close> the
  constructor of \<open>Player\<close> (given the identifier and the position), \<open>visible\<close> what
  \<open>updateVisibleObjects\<close> computes. The function returns the new player with the game.
\<close>

definition greet :: "ref \<Rightarrow> ref \<Rightarrow> Game \<Rightarrow> Game" where
  "greet p player g =
     (if player = p then g
      else case (playerAt g player, playerAt g p) of
             (Some other, Some pl) \<Rightarrow>
               setPlayer p (pl\<lparr>Player.fullDirtyObjects := Player.fullDirtyObjects pl @ [player]\<rparr>)
                 (setPlayer player
                    (other\<lparr>Player.fullDirtyObjects := Player.fullDirtyObjects other @ [p]\<rparr>) g)
           | _ \<Rightarrow> g)"

definition addPlayer ::
  "(int \<Rightarrow> Vec2 \<Rightarrow> Player) \<Rightarrow> (Game \<Rightarrow> ref \<Rightarrow> ref list) \<Rightarrow> Vec2 \<Rightarrow> Game \<Rightarrow> ref \<times> Game" where
  "addPlayer mk visible spawnPosition g =
     (let ident = nextObjectId g + 1;
          p = nextRef g;
          g1 = g\<lparr>nextObjectId := ident, heap := (heap g)(p \<mapsto> PlayerO (mk ident spawnPosition)),
                 nextRef := Suc p\<rparr>;
          g2 = g1\<lparr>objects := objects g1 @ [p], players := players g1 @ [p],
                  connectedPlayers := connectedPlayers g1 @ [p],
                  activePlayers := activePlayers g1 @ [p], newPlayers := newPlayers g1 @ [p],
                  fullDirtyObjects := fullDirtyObjects g1 @ [p],
                  aliveCount := aliveCount g1 + 1, aliveCountDirty := True,
                  playerInfosDirty := True\<rparr>;
          g3 = (case playerAt g2 p of
                  Some pl \<Rightarrow> setPlayer p (pl\<lparr>visibleObjects := visible g2 p\<rparr>) g2
                | None \<Rightarrow> g2);
          g4 = fold (greet p) (players g3) g3;
          g5 = (case playerAt g4 p of
                  Some pl \<Rightarrow>
                    setPlayer p (pl\<lparr>Player.fullDirtyObjects := Player.fullDirtyObjects pl @ [p]\<rparr>) g4
                | None \<Rightarrow> g4);
          g6 = call (SendPacket p (JoinedPacket p)) g5
      in (p, call (SendData p [MapPacket p, UpdatePacket p, AliveCountsPacket]) g6))"

definition removePlayer :: "ref \<Rightarrow> Game \<Rightarrow> Game" where
  "removePlayer p g =
     (case playerAt g p of
        Some pl \<Rightarrow>
          (let g1 = g\<lparr>world := world g - {p}, calls := calls g @ [DestroyBody p]\<rparr>;
               g2 = (if inventoryEmpty pl then
                       g1\<lparr>objects := removeFrom (objects g1) p,
                          partialDirtyObjects := removeFrom (partialDirtyObjects g1) p,
                          fullDirtyObjects := removeFrom (fullDirtyObjects g1) p,
                          deletedPlayers := deletedPlayers g1 @ [p],
                          deletedObjects := deletedObjects g1 @ [p]\<rparr>
                     else
                       setPlayer p
                         (pl\<lparr>Player.direction := (1, 0), disconnected := True,
                             deadPos := Player.position pl\<rparr>)
                         (g1\<lparr>fullDirtyObjects := fullDirtyObjects g1 @ [p]\<rparr>));
               g3 = g2\<lparr>activePlayers := removeFrom (activePlayers g2) p,
                       connectedPlayers := removeFrom (connectedPlayers g2) p\<rparr>
           in if \<not> Player.dead pl
              then g3\<lparr>aliveCount := aliveCount g3 - 1, aliveCountDirty := True\<rparr>
              else g3)
      | None \<Rightarrow> g)"

section \<open>A small arena\<close>

text \<open>
  Sample tables and helpers, a player with an empty inventory and bare hands, and an empty
  game: the concrete inputs at which the theorems below are instantiated.
\<close>

definition sampleTables :: Tables where
  "sampleTables =
     \<lparr>itemLevel = (\<lambda>t. if t = ''2xscope'' then 2 else 1),
      bagSizes = (\<lambda>t. if t = ''bandage'' then Some [5, 10, 15, 30] else None),
      typeToId = (\<lambda>t. 0),
      reloadTime = (\<lambda>t. 2),
      bulletDamage = (\<lambda>t. 14),
      attackRad = (\<lambda>t. 1),
      attackOffset = (\<lambda>t. (1, 0)),
      shotSpread = (\<lambda>t. 0),
      barrelLength = (\<lambda>t. 1),
      bulletType = (\<lambda>t. ''bullet_m9''),
      fireMode = (\<lambda>t. ''single''),
      touchLootRadMult = 1,
      actionUseItem = 1,
      actionReload = 2\<rparr>"

definition sampleUtils :: Utils where
  "sampleUtils =
     \<lparr>distanceBetween = (\<lambda>a b. sqrt ((fst a - fst b)\<^sup>2 + (snd a - snd b)\<^sup>2)),
      distanceToCircle = (\<lambda>p1 r1 p2 r2.
         \<lparr>collided = (fst p1 - fst p2)\<^sup>2 + (snd p1 - snd p2)\<^sup>2 < (r1 + r2)\<^sup>2,
          distance = (fst p1 - fst p2)\<^sup>2 + (snd p1 - snd p2)\<^sup>2\<rparr>),
      distanceToRect = (\<lambda>mn mx p2 r2.
         \<lparr>collided = (fst mn - r2 < fst p2 \<and> fst p2 < fst mx + r2
                       \<and> snd mn - r2 < snd p2 \<and> snd p2 < snd mx + r2),
          distance = (fst mn - fst p2)\<^sup>2 + (snd mn - snd p2)\<^sup>2\<rparr>),
      unitVecToRadians = (\<lambda>v. 0),
      vec2Rotate = (\<lambda>v a. v),
      degreesToRadians = (\<lambda>d. d)\<rparr>"

definition samplePlayer :: Player where
  "samplePlayer =
     \<lparr>isMobile = False, touchMoveDir = (0, 0), speed = 12, diagonalSpeed = 8,
      movingUp = False, movingDown = False, movingLeft = False, movingRight = False,
      moving = False, movesSinceLastUpdate = 0,
      position = (0, 0), direction = (1, 0), scale = 1, layer = 0,
      body = True, dead = False, damageable = True, interactable = False,
      disconnected = False, deadPos = (0, 0), health = 100, boost = 0,
      inventory = (\<lambda>t. 0), inventoryDirty = False, inventoryEmpty = True,
      scope = ''1xscope'', backpackLevel = Num 0, chestLevel = Num 0, helmetLevel = Num 0,
      weapons = \<lparr>primaryGun = \<lparr>WeaponSlot.typeString = [], typeId = 0\<rparr>,
                 secondaryGun = \<lparr>WeaponSlot.typeString = [], typeId = 0\<rparr>,
                 melee = \<lparr>WeaponSlot.typeString = ''fists'', typeId = 1\<rparr>\<rparr>,
      weaponsDirty = False,
      activeWeapon = \<lparr>weaponType = Melee, typeString = ''fists'', typeId = 1, cooldown = 0\<rparr>,
      shootStart = False, shootHold = False,
      actionDirty = False,
      actionItem = \<lparr>ActionItem.typeString = [], typeId = 0, useEnd = 0\<rparr>,
      actionType = 0, actionSeq = 0, usingItem = False,
      animActive = False, animType = 0, animSeq = 0, animTime = - 1,
      role = 0, roleLost = False,
      visibleObjects = [], fullDirtyObjects = [], partialDirtyObjects = [],
      deletedObjects = [], emotes = [], explosions = []\<rparr>"

definition sampleStep :: Step where
  "sampleStep =
     \<lparr>now = 1000, moved = (\<lambda>r. None), contacts = [],
      randomFloat = (\<lambda>lo hi. lo),
      weaponCooldownOver = (\<lambda>pl. True),
      updateVisibleObjects = (\<lambda>g p. case playerAt g p of Some pl \<Rightarrow> visibleObjects pl | None \<Rightarrow> [])\<rparr>"

definition emptyGame :: Game where
  "emptyGame =
     \<lparr>objects = [], nextObjectId = - 1,
      partialDirtyObjects = [], fullDirtyObjects = [], deletedObjects = [], newObjects = [],
      loot = [], players = [], connectedPlayers = [], activePlayers = [],
      newPlayers = [], deletedPlayers = [], playerInfosDirty = False,
      aliveCount = 0, aliveCountDirty = False,
      emotes = [], explosions = [], bullets = [], dirtyBullets = [],
      aliveCounts = None, kills = [], roleAnnouncements = [], damageRecords = [],
      gasDirty = False, gasCircleDirty = False, active = True,
      world = {}, heap = (\<lambda>r. None), nextRef = 0, calls = []\<rparr>"

text \<open>
  A game of one mobile player (reference 0) standing on the origin, who sees one stack of
  three bandages (reference 1) lying at \<open>(1, 0)\<close>, and a step of the physics that moves
  that stack onto the origin.
\<close>

definition bandages :: Loot where
  "bandages =
     \<lparr>Loot.typeString = ''bandage'', typeId = 0, layer = 0, count = 3,
      position = (1, 0), oldPos = (1, 0), interactable = True\<rparr>"

definition touchGame :: Game where
  "touchGame =
     emptyGame\<lparr>objects := [0, 1], loot := [1], players := [0], connectedPlayers := [0],
               activePlayers := [0], world := {0, 1}, nextRef := 2,
               heap := [0 \<mapsto> PlayerO (samplePlayer\<lparr>isMobile := True, visibleObjects := [1]\<rparr>),
                        1 \<mapsto> LootO bandages]\<rparr>"

definition pushStep :: Step where
  "pushStep = sampleStep\<lparr>moved := [1 \<mapsto> (0, 0)]\<rparr>"


text \<open>
  The game of the mobile player and the bandages in the middle of a tick, with objects in
  the three dirty lists: the player itself (0), the bandages (1), which it sees, and two
  objects it does not see (5 and 7).
\<close>

definition dirtyGame :: Game where
  "dirtyGame =
     touchGame\<lparr>fullDirtyObjects := [0, 1, 5], partialDirtyObjects := [5, 1],
               deletedObjects := [7]\<rparr>"

text \<open>
  Games of one player on a desktop (reference 0) and one loot (reference 1): a player with
  four bandages, or with five (the capacity of the first bag), before a stack of three
  bandages or an empty stack; and a player with a helmet of level 1 before a helmet of
  level 2.
\<close>

definition lootGame :: "Player \<Rightarrow> Loot \<Rightarrow> Game" where
  "lootGame pl l =
     emptyGame\<lparr>objects := [0, 1], loot := [1], players := [0], connectedPlayers := [0],
               activePlayers := [0], world := {0, 1}, nextRef := 2,
               heap := [0 \<mapsto> PlayerO pl, 1 \<mapsto> LootO l]\<rparr>"

definition withBandages :: "int \<Rightarrow> Player" where
  "withBandages k = samplePlayer\<lparr>inventory := (\<lambda>t. if t = ''bandage'' then k else 0)\<rparr>"




text \<open>
  Three players (references 0, 1 and 3) and one bullet (reference 2) that player 0 shot;
  a step of the physics in which the bullet begins to touch player 1 and player 3; and the
  same game with one record queued.
\<close>

definition m9 :: Bullet where
  "m9 = \<lparr>shooter = 0, typeString = ''bullet_m9'', position = (0, 0), direction = (1, 0),
          shotSource = 0, layer = 0\<rparr>"

definition shotGame :: Game where
  "shotGame =
     emptyGame\<lparr>objects := [0, 1, 3], players := [0, 1, 3], connectedPlayers := [0, 1, 3],
               activePlayers := [0, 1, 3], bullets := [2], world := {0, 1, 2, 3}, nextRef := 4,
               heap := [0 \<mapsto> PlayerO samplePlayer, 1 \<mapsto> PlayerO samplePlayer,
                        2 \<mapsto> BulletO m9, 3 \<mapsto> PlayerO samplePlayer]\<rparr>"

definition shotStep :: Step where
  "shotStep = sampleStep\<lparr>contacts := [(2, 1), (3, 2)]\<rparr>"

definition hitGame :: Game where
  "hitGame = shotGame\<lparr>damageRecords := [\<lparr>damaged = 1, damager = 0, bullet = 2\<rparr>]\<rparr>"




section \<open>The collision filter: properties\<close>

lemma shouldCollide_layers:
  "FixtureData.layer a \<noteq> FixtureData.layer b \<Longrightarrow> \<not> shouldCollide a b"
  by (simp add: shouldCollide_def)

lemma shouldCollide_player:
  "kind a = KindPlayer \<Longrightarrow>
     shouldCollide a b =
       (FixtureData.layer a = FixtureData.layer b \<and> (kind b = KindObstacle \<or> isBullet b))"
  by (simp add: shouldCollide_def)

lemma shouldCollide_bullet:
  "kind a \<noteq> KindPlayer \<Longrightarrow> isBullet a \<Longrightarrow>
     shouldCollide a b =
       (FixtureData.layer a = FixtureData.layer b \<and> kind b \<noteq> KindLoot
        \<and> (kind b = KindPlayer \<or> kind b = KindObstacle \<or> isBullet b))"
  by (simp add: shouldCollide_def)

lemma shouldCollide_loot:
  "kind a = KindLoot \<Longrightarrow> \<not> isBullet a \<Longrightarrow>
     shouldCollide a b =
       (FixtureData.layer a = FixtureData.layer b \<and> (kind b = KindObstacle \<or> kind b = KindLoot))"
  by (simp add: shouldCollide_def)

lemma shouldCollide_other:
  "kind a = KindObstacle \<or> kind a = KindOther \<Longrightarrow> \<not> isBullet a \<Longrightarrow> \<not> shouldCollide a b"
  by (auto simp add: shouldCollide_def)

text \<open>
  Claim C9. The filter is to give the same answer whichever fixture of a pair is asked.
  On the code it does not: an obstacle that is asked about a player on its layer answers
  \<open>False\<close> (no branch of the filter is for an obstacle, so the last \<open>else\<close> decides),
  while the player asked about that obstacle answers \<open>True\<close>.
\<close>

theorem shouldCollide_obstacle_asked:
  "shouldCollide \<lparr>FixtureData.layer = 0, kind = KindObstacle, isBullet = False\<rparr>
                 \<lparr>FixtureData.layer = 0, kind = KindPlayer, isBullet = False\<rparr> = False
   \<and> shouldCollide \<lparr>FixtureData.layer = 0, kind = KindPlayer, isBullet = False\<rparr>
                   \<lparr>FixtureData.layer = 0, kind = KindObstacle, isBullet = False\<rparr> = True"
  by (simp add: shouldCollide_def)

section \<open>What a tick leaves alone and what it clears\<close>

lemma newLoot_plain:
  "newLoot T ts pos lay cnt False g =
     (nextRef g,
      g\<lparr>heap := (heap g)(nextRef g \<mapsto> LootO \<lparr>Loot.typeString = ts, typeId = typeToId T ts, layer = lay,
              count = cnt, position = pos, oldPos = pos, interactable = True\<rparr>),
        nextRef := Suc (nextRef g), world := insert (nextRef g) (world g),
        calls := calls g @ [CreateBody (nextRef g)], loot := loot g @ [nextRef g]\<rparr>)"
  by (simp add: newLoot_def Let_def)


































lemma tick_inactive: "\<not> active g \<Longrightarrow> tick T U S g = g"
  by (simp add: tick_def)




section \<open>Joining\<close>

lemma calls_setObj: "calls (setObj r ob g) = calls g"
  by (simp add: setObj_def)

lemma calls_setPlayer: "calls (setPlayer r pl g) = calls g"
  by (simp add: setPlayer_def setObj_def)

lemma calls_greet: "calls (greet p q g) = calls g"
  by (simp add: greet_def calls_setPlayer split: option.splits)

lemma calls_fold_greet: "calls (fold (greet p) qs g) = calls g"
  by (induction qs arbitrary: g) (simp_all add: calls_greet)

text \<open>
  Claim C7, as amended. \<open>addPlayer\<close> sends the new connection two things, in this order
  and nothing else: the joined-acknowledgement, as a packet of its own through
  \<open>sendPacket\<close>, and then one buffer into which the map description, the full state
  snapshot and the alive counts were serialized, in this order.
\<close>

theorem addPlayer_sends:
  "calls (snd (addPlayer mk visible spawnPosition g)) =
     calls g @ [SendPacket (nextRef g) (JoinedPacket (nextRef g)),
                SendData (nextRef g)
                  [MapPacket (nextRef g), UpdatePacket (nextRef g), AliveCountsPacket]]"
  by (simp add: addPlayer_def Let_def call_def calls_setPlayer calls_fold_greet
        split: option.splits)

text \<open>
  Claim C7 as stated fails: the single buffer that \<open>addPlayer\<close> sends to the first player
  of an empty game holds three messages, and the joined-acknowledgement is not one of them.
\<close>

theorem addPlayer_buffer_counterexample:
  "calls (snd (addPlayer (\<lambda>ident pos. samplePlayer) (\<lambda>g p. []) (0, 0) emptyGame)) =
     [SendPacket 0 (JoinedPacket 0), SendData 0 [MapPacket 0, UpdatePacket 0, AliveCountsPacket]]
   \<and> JoinedPacket 0 \<notin> set [MapPacket 0, UpdatePacket 0, AliveCountsPacket]"
  by (simp add: addPlayer_def Let_def call_def setPlayer_def setObj_def playerAt_def greet_def
        emptyGame_def)

section \<open>The per-connection pass\<close>

lemma playerAt_setPlayer:
  "playerAt (setPlayer r pl g) r' = (if r' = r then Some pl else playerAt g r')"
  by (simp add: playerAt_def setPlayer_def setObj_def)

lemma playerAt_calls_update: "playerAt (g\<lparr>calls := cs\<rparr>) r = playerAt g r"
  by (simp add: playerAt_def)

lemma playerAt_sendPackets: "playerAt (sendPackets q g) r = playerAt g r"
  by (simp add: sendPackets_def playerAt_def)

lemma playerAt_refreshVisible_other:
  "q \<noteq> p \<Longrightarrow> playerAt (refreshVisible S q g) p = playerAt g p"
  by (simp add: refreshVisible_def playerAt_setPlayer split: option.splits)

lemma connectionLogic_other:
  "q \<noteq> p \<Longrightarrow> playerAt (connectionLogic S q g) p = playerAt g p"
  by (simp add: connectionLogic_def Let_def playerAt_sendPackets playerAt_setPlayer
        playerAt_refreshVisible_other split: option.splits)

lemma dirty_refreshVisible:
  "fullDirtyObjects (refreshVisible S q g) = fullDirtyObjects g
   \<and> partialDirtyObjects (refreshVisible S q g) = partialDirtyObjects g
   \<and> deletedObjects (refreshVisible S q g) = deletedObjects g"
  by (simp add: refreshVisible_def setPlayer_def setObj_def split: option.splits)

lemma dirty_connectionLogic:
  "fullDirtyObjects (connectionLogic S q g) = fullDirtyObjects g
   \<and> partialDirtyObjects (connectionLogic S q g) = partialDirtyObjects g
   \<and> deletedObjects (connectionLogic S q g) = deletedObjects g"
  by (simp add: connectionLogic_def Let_def sendPackets_def setPlayer_def setObj_def
        dirty_refreshVisible split: option.splits)

lemma refreshVisible_self:
  "playerAt g p = Some pl \<Longrightarrow>
     \<exists>pl1. playerAt (refreshVisible S p g) p = Some pl1
       \<and> Player.fullDirtyObjects pl1 = Player.fullDirtyObjects pl
       \<and> Player.partialDirtyObjects pl1 = Player.partialDirtyObjects pl
       \<and> Player.deletedObjects pl1 = Player.deletedObjects pl"
  by (simp add: refreshVisible_def playerAt_setPlayer)

lemma connectionLogic_self:
  assumes "playerAt g p = Some pl"
  shows "\<exists>pl'. playerAt (connectionLogic S p g) p = Some pl'
     \<and> Player.fullDirtyObjects pl' = Player.fullDirtyObjects pl @
           filter (\<lambda>object. object \<in> set (visibleObjects pl')) (fullDirtyObjects g)
     \<and> Player.partialDirtyObjects pl' = Player.partialDirtyObjects pl @
           filter (\<lambda>object. object \<in> set (visibleObjects pl')) (partialDirtyObjects g)
     \<and> Player.deletedObjects pl' = Player.deletedObjects pl @ deletedObjects g"
proof -
  obtain pl1 where r: "playerAt (refreshVisible S p g) p = Some pl1"
    and f: "Player.fullDirtyObjects pl1 = Player.fullDirtyObjects pl"
    and pa: "Player.partialDirtyObjects pl1 = Player.partialDirtyObjects pl"
    and d: "Player.deletedObjects pl1 = Player.deletedObjects pl"
    using refreshVisible_self [OF assms, of S] by blast
  have "playerAt (connectionLogic S p g) p = Some (connectionDelta (refreshVisible S p g) pl1)"
    using r by (simp add: connectionLogic_def Let_def playerAt_sendPackets playerAt_setPlayer)
  moreover have "Player.fullDirtyObjects (connectionDelta (refreshVisible S p g) pl1) =
      Player.fullDirtyObjects pl @
        filter (\<lambda>object. object \<in> set (visibleObjects (connectionDelta (refreshVisible S p g) pl1)))
          (fullDirtyObjects g)"
    using f by (simp add: connectionDelta_def Let_def dirty_refreshVisible)
  moreover have "Player.partialDirtyObjects (connectionDelta (refreshVisible S p g) pl1) =
      Player.partialDirtyObjects pl @
        filter (\<lambda>object. object \<in> set (visibleObjects (connectionDelta (refreshVisible S p g) pl1)))
          (partialDirtyObjects g)"
    using pa by (simp add: connectionDelta_def Let_def dirty_refreshVisible)
  moreover have "Player.deletedObjects (connectionDelta (refreshVisible S p g) pl1) =
      Player.deletedObjects pl @ deletedObjects g"
    using d by (simp add: connectionDelta_def Let_def dirty_refreshVisible)
  ultimately show ?thesis by blast
qed

lemma fold_connectionLogic_other:
  "p \<notin> set qs \<Longrightarrow> playerAt (fold (connectionLogic S) qs g) p = playerAt g p"
  by (induction qs arbitrary: g) (auto simp add: connectionLogic_other)

lemma fold_connectionLogic_self:
  assumes "distinct qs" "p \<in> set qs" "playerAt g p = Some pl"
  shows "\<exists>pl'. playerAt (fold (connectionLogic S) qs g) p = Some pl'
     \<and> Player.fullDirtyObjects pl' = Player.fullDirtyObjects pl @
           filter (\<lambda>object. object \<in> set (visibleObjects pl')) (fullDirtyObjects g)
     \<and> Player.partialDirtyObjects pl' = Player.partialDirtyObjects pl @
           filter (\<lambda>object. object \<in> set (visibleObjects pl')) (partialDirtyObjects g)
     \<and> Player.deletedObjects pl' = Player.deletedObjects pl @ deletedObjects g"
  using assms
proof (induction qs arbitrary: g)
  case Nil
  then show ?case by simp
next
  case (Cons q qs)
  show ?case
  proof (cases "q = p")
    case True
    with Cons.prems have "p \<notin> set qs" by simp
    then have "playerAt (fold (connectionLogic S) (q # qs) g) p = playerAt (connectionLogic S p g) p"
      using True by (simp add: fold_connectionLogic_other)
    then show ?thesis
      using connectionLogic_self [OF Cons.prems(3), of S] by simp
  next
    case False
    with Cons.prems have d: "distinct qs" and m: "p \<in> set qs"
      and a: "playerAt (connectionLogic S q g) p = Some pl"
      by (simp_all add: connectionLogic_other)
    show ?thesis
      using Cons.IH [OF d m a] by (simp add: dirty_connectionLogic)
  qed
qed

text \<open>
  Claim C6. In the second loop of a tick every connected player \<open>p\<close> gets, appended to
  its own lists: of the fully dirty and of the partially dirty objects of the game exactly
  those that are in the visible objects of \<open>p\<close> (as they stand after the refresh of the
  pass), in the order of the game's lists; and every deleted object of the game, visible or
  not. The list of connected players holds each connection once.
\<close>

theorem connection_delta:
  assumes "distinct (connectedPlayers g)" and "p \<in> set (connectedPlayers g)"
    and "playerAt g p = Some pl"
  shows "\<exists>pl'. playerAt (secondLoop S g) p = Some pl'
     \<and> Player.fullDirtyObjects pl' = Player.fullDirtyObjects pl @
           filter (\<lambda>object. object \<in> set (visibleObjects pl')) (fullDirtyObjects g)
     \<and> Player.partialDirtyObjects pl' = Player.partialDirtyObjects pl @
           filter (\<lambda>object. object \<in> set (visibleObjects pl')) (partialDirtyObjects g)
     \<and> Player.deletedObjects pl' = Player.deletedObjects pl @ deletedObjects g"
  unfolding secondLoop_def using assms by (rule fold_connectionLogic_self)

text \<open>
  The theorem at \<open>dirtyGame\<close>: the player is told of the deleted object 7, which it never
  saw, and of what it sees among the dirty objects.
\<close>

theorem connection_delta_witness:
  "distinct (connectedPlayers dirtyGame) \<and> 0 \<in> set (connectedPlayers dirtyGame)
   \<and> (\<exists>pl'. playerAt (secondLoop sampleStep dirtyGame) 0 = Some pl'
         \<and> Player.fullDirtyObjects pl' =
               filter (\<lambda>object. object \<in> set (visibleObjects pl')) [0, 1, 5]
         \<and> Player.partialDirtyObjects pl' =
               filter (\<lambda>object. object \<in> set (visibleObjects pl')) [5, 1]
         \<and> Player.deletedObjects pl' = [7])"
proof -
  have a: "distinct (connectedPlayers dirtyGame)"
    by (simp add: dirtyGame_def touchGame_def emptyGame_def)
  have b: "0 \<in> set (connectedPlayers dirtyGame)"
    by (simp add: dirtyGame_def touchGame_def emptyGame_def)
  have c: "playerAt dirtyGame 0 = Some (samplePlayer\<lparr>isMobile := True, visibleObjects := [1]\<rparr>)"
    by (simp add: dirtyGame_def touchGame_def emptyGame_def playerAt_def)
  have l: "fullDirtyObjects dirtyGame = [0, 1, 5] \<and> partialDirtyObjects dirtyGame = [5, 1]
      \<and> deletedObjects dirtyGame = [7]"
    by (simp add: dirtyGame_def)
  show ?thesis
    using a b l connection_delta [OF a b c, of sampleStep]
    by (simp add: samplePlayer_def)
qed

section \<open>Picking up loot\<close>

lemma lootAt_Some: "lootAt g r = Some l \<longleftrightarrow> heap g r = Some (LootO l)"
  by (simp add: lootAt_def split: option.splits Obj.splits)

lemma playerAt_Some: "playerAt g r = Some pl \<longleftrightarrow> heap g r = Some (PlayerO pl)"
  by (simp add: playerAt_def split: option.splits Obj.splits)

lemma interact_unfold:
  "lootAt g this = Some l \<Longrightarrow> playerAt g p = Some pl \<Longrightarrow>
     interact T this p g = finishPickup this p (interactBranch T this l p pl g)"
  by (simp add: interact_def)









lemma getLevel_setLevel: "getLevel ty (setLevel ty v pl) = v"
  by (cases ty) simp_all





section \<open>The pickup packet\<close>

lemma isMobile_setLevel: "isMobile (setLevel ty v pl) = isMobile pl"
  by (cases ty) simp_all

lemma keeps_pickUpScope:
  assumes "heap g this = Some (LootO l)" and "heap g p = Some (PlayerO pl)"
    and "pickUpScope T this l p pl g = (res, del, dirty, g1)"
  shows "filter isPickupPacket (calls g1) = filter isPickupPacket (calls g)
     \<and> lootAt g1 this = Some l
     \<and> (\<exists>pl1. playerAt g1 p = Some pl1 \<and> isMobile pl1 = isMobile pl)"
proof -
  have "this \<noteq> p" using assms(1,2) by auto
  then show ?thesis
    using assms
    by (auto simp add: pickUpScope_def Let_def setObj_def call_def lootAt_def playerAt_def
          split: if_splits)
qed

lemma keeps_pickUpStack:
  assumes "heap g this = Some (LootO l)" and "heap g p = Some (PlayerO pl)"
    and "pickUpStack sizes this l p pl g = (res, del, dirty, g1)"
  shows "filter isPickupPacket (calls g1) = filter isPickupPacket (calls g)
     \<and> (\<exists>l1. lootAt g1 this = Some l1 \<and> Loot.typeString l1 = Loot.typeString l)
     \<and> (\<exists>pl1. playerAt g1 p = Some pl1 \<and> isMobile pl1 = isMobile pl)"
proof -
  have "this \<noteq> p" using assms(1,2) by auto
  then show ?thesis
    using assms
    by (auto simp add: pickUpStack_def Let_def setObj_def lootAt_def playerAt_def
          split: if_splits jsnum.splits)
qed

lemma keeps_pickUpWeapon:
  assumes "heap g this = Some (LootO l)" and "heap g p = Some (PlayerO pl)"
    and "pickUpWeapon T this l p pl g = (res, del, dirty, g1)"
  shows "filter isPickupPacket (calls g1) = filter isPickupPacket (calls g)
     \<and> lootAt g1 this = Some l
     \<and> (\<exists>pl1. playerAt g1 p = Some pl1 \<and> isMobile pl1 = isMobile pl)"
proof -
  have "this \<noteq> p" using assms(1,2) by auto
  then show ?thesis
    using assms
    by (auto simp add: pickUpWeapon_def Let_def setObj_def call_def lootAt_def playerAt_def
          split: if_splits)
qed

lemma keeps_pickUpTieredItem:
  assumes "heap g this = Some (LootO l)" and "heap g p = Some (PlayerO pl)"
    and "heap g (nextRef g) = None"
    and "pickUpTieredItem T this ty p g = (res, g1)"
  shows "filter isPickupPacket (calls g1) = filter isPickupPacket (calls g)
     \<and> lootAt g1 this = Some l
     \<and> (\<exists>pl1. playerAt g1 p = Some pl1 \<and> isMobile pl1 = isMobile pl)"
proof -
  have "this \<noteq> p" "this \<noteq> nextRef g" "p \<noteq> nextRef g" using assms(1,2,3) by auto
  then show ?thesis
    using assms
    by (auto simp add: pickUpTieredItem_def Let_def setObj_def newLoot_plain lootAt_def
          playerAt_def isMobile_setLevel split: if_splits)
qed

lemma keeps_interactBranch:
  assumes "heap g this = Some (LootO l)" and "heap g p = Some (PlayerO pl)"
    and "heap g (nextRef g) = None"
    and "interactBranch T this l p pl g = (res, del, dirty, g1)"
  shows "filter isPickupPacket (calls g1) = filter isPickupPacket (calls g)
     \<and> (\<exists>l1. lootAt g1 this = Some l1 \<and> Loot.typeString l1 = Loot.typeString l)
     \<and> (\<exists>pl1. playerAt g1 p = Some pl1 \<and> isMobile pl1 = isMobile pl)"
proof -
  note sc = keeps_pickUpScope [OF assms(1,2)]
  note st = keeps_pickUpStack [OF assms(1,2)]
  note we = keeps_pickUpWeapon [OF assms(1,2)]
  note ti = keeps_pickUpTieredItem [OF assms(1,2,3)]
  consider (scope) "pickUpScope T this l p pl g = (res, del, dirty, g1)"
    | (tier) ty where "pickUpTieredItem T this ty p g = (res, g1)"
    | (stack) sizes where "pickUpStack sizes this l p pl g = (res, del, dirty, g1)"
    | (weapon) "pickUpWeapon T this l p pl g = (res, del, dirty, g1)"
    using assms(4)
    by (auto simp add: interactBranch_def Let_def split: if_splits option.splits prod.splits)
  then show ?thesis
  proof cases
    case scope
    then show ?thesis using sc by blast
  next
    case tier
    then show ?thesis using ti by blast
  next
    case stack
    then show ?thesis using st by blast
  next
    case weapon
    then show ?thesis using we by blast
  qed
qed

text \<open>
  Claim C10. A call of \<open>Loot.interact\<close> whose branch ends with the result \<open>res\<close> sends
  no pickup packet when the player is on mobile and \<open>res\<close> is not \<open>Success\<close>, and in
  every other case exactly one, to that player, which carries the type of the loot, the
  count of the loot when the packet is made (after the branch: the remainder, after a
  partial pickup) and \<open>res\<close>. The reference that \<open>new\<close> returns is unused before.
\<close>

theorem pickup_packet:
  assumes "lootAt g this = Some l" and "playerAt g p = Some pl"
    and "heap g (nextRef g) = None"
    and "interactBranch T this l p pl g = (res, del, dirty, g1)"
  shows "\<exists>l1. lootAt g1 this = Some l1 \<and> Loot.typeString l1 = Loot.typeString l
     \<and> filter isPickupPacket (calls (interact T this p g)) =
         filter isPickupPacket (calls g) @
           (if isMobile pl \<and> res \<noteq> Success then []
            else [SendPacket p (PickupPacket (Loot.typeString l) (Loot.count l1) res)])"
proof -
  have hl: "heap g this = Some (LootO l)" and hp: "heap g p = Some (PlayerO pl)"
    using assms(1,2) by (simp_all add: lootAt_Some playerAt_Some)
  from keeps_interactBranch [OF hl hp assms(3,4)]
  obtain l1 pl1 where c: "filter isPickupPacket (calls g1) = filter isPickupPacket (calls g)"
    and l1: "lootAt g1 this = Some l1" "Loot.typeString l1 = Loot.typeString l"
    and p1: "playerAt g1 p = Some pl1" "isMobile pl1 = isMobile pl"
    by blast
  have i: "interact T this p g = finishPickup this p (res, del, dirty, g1)"
    using assms(1,2,4) by (simp add: interact_unfold)
  have s: "filter isPickupPacket (calls (sendPickup this p res g1)) =
      filter isPickupPacket (calls g) @
           (if isMobile pl \<and> res \<noteq> Success then []
            else [SendPacket p (PickupPacket (Loot.typeString l) (Loot.count l1) res)])"
    using c l1 p1 by (simp add: sendPickup_def call_def)
  have d: "\<And>h. filter isPickupPacket (calls (deleteLoot this h)) = filter isPickupPacket (calls h)"
    by (simp add: deleteLoot_def Let_def setObj_def split: option.splits)
  have m: "\<And>h. calls (markPlayerDirty p h) = calls h"
    by (simp add: markPlayerDirty_def Let_def setObj_def split: option.splits)
  have n: "\<And>h. calls (markInventory p h) = calls h"
    by (simp add: markInventory_def setObj_def split: option.splits)
  have "filter isPickupPacket (calls (finishPickup this p (res, del, dirty, g1))) =
      filter isPickupPacket (calls (sendPickup this p res g1))"
    by (simp add: finishPickup_def Let_def d m n)
  with i s l1 show ?thesis by simp
qed

text \<open>
  The theorem at the player on a desktop with four bandages and the stack of three: one
  packet, with the remainder of two and \<open>Success\<close>.
\<close>

theorem pickup_packet_witness:
  "lootAt (lootGame (withBandages 4) bandages) 1 = Some bandages
   \<and> playerAt (lootGame (withBandages 4) bandages) 0 = Some (withBandages 4)
   \<and> heap (lootGame (withBandages 4) bandages) (nextRef (lootGame (withBandages 4) bandages)) = None
   \<and> \<not> isMobile (withBandages 4)
   \<and> fst (interactBranch sampleTables 1 bandages 0 (withBandages 4)
            (lootGame (withBandages 4) bandages)) = Success
   \<and> filter isPickupPacket (calls (interact sampleTables 1 0 (lootGame (withBandages 4) bandages))) =
        [SendPacket 0 (PickupPacket ''bandage'' 2 Success)]"
proof -
  let ?g = "lootGame (withBandages 4) bandages"
  have a: "lootAt ?g 1 = Some bandages"
    by (simp add: lootGame_def lootAt_def)
  have b: "playerAt ?g 0 = Some (withBandages 4)"
    by (simp add: lootGame_def playerAt_def)
  have c: "heap ?g (nextRef ?g) = None"
    by (simp add: lootGame_def emptyGame_def)
  have m: "\<not> isMobile (withBandages 4)"
    by (simp add: withBandages_def samplePlayer_def)
  have d: "interactBranch sampleTables 1 bandages 0 (withBandages 4) ?g =
      (Success, False, False,
       ?g\<lparr>heap := (heap ?g)(0 \<mapsto> PlayerO ((withBandages 4)\<lparr>inventory := (inventory (withBandages 4))(''bandage'' := 5)\<rparr>),
                              1 \<mapsto> LootO (bandages\<lparr>Loot.count := 2\<rparr>)),
           fullDirtyObjects := fullDirtyObjects ?g @ [1]\<rparr>)"
    by (simp add: interactBranch_def pickUpStack_def capacityAt_def Let_def setObj_def
          endsWith_def startsWith_def sampleTables_def bandages_def withBandages_def
          samplePlayer_def)
  have e: "calls ?g = []"
    by (simp add: lootGame_def emptyGame_def)
  have r: "fst (interactBranch sampleTables 1 bandages 0 (withBandages 4) ?g) = Success"
    using d by simp
  have ts: "Loot.typeString bandages = ''bandage''"
    by (simp add: bandages_def)
  from pickup_packet [OF a b c d]
  obtain l1 where l1: "lootAt
        (?g\<lparr>heap := (heap ?g)(0 \<mapsto> PlayerO ((withBandages 4)\<lparr>inventory := (inventory (withBandages 4))(''bandage'' := 5)\<rparr>),
                              1 \<mapsto> LootO (bandages\<lparr>Loot.count := 2\<rparr>)),
           fullDirtyObjects := fullDirtyObjects ?g @ [1]\<rparr>) 1 = Some l1"
    and f: "filter isPickupPacket (calls (interact sampleTables 1 0 ?g)) =
         filter isPickupPacket (calls ?g) @
           (if isMobile (withBandages 4) \<and> Success \<noteq> Success then []
            else [SendPacket 0 (PickupPacket (Loot.typeString bandages) (Loot.count l1) Success)])"
    by blast
  from l1 have "Loot.count l1 = 2"
    by (auto simp add: lootAt_def)
  with f e ts have "filter isPickupPacket (calls (interact sampleTables 1 0 ?g)) =
        [SendPacket 0 (PickupPacket ''bandage'' 2 Success)]"
    by simp
  with a b c m r show ?thesis by blast
qed

section \<open>The damage records\<close>

lemma applyDamageRecord_bullet:
  assumes "heap g (bullet r) = Some (BulletO b)"
  shows "applyDamageRecord T r g =
     g\<lparr>calls := calls g @ recordCalls T g r, world := world g - {bullet r},
       bullets := removeFrom (bullets g) (bullet r)\<rparr>"
  using assms by (simp add: applyDamageRecord_def recordCalls_def recordDamage_def)

lemma recordCalls_heap: "heap h = heap g \<Longrightarrow> recordCalls T h = recordCalls T g"
  by (rule ext) (simp add: recordCalls_def recordDamage_def)

lemma fold_applyDamageRecord:
  assumes "\<forall>r \<in> set rs. \<exists>b. heap g (bullet r) = Some (BulletO b)"
  shows "fold (applyDamageRecord T) rs g =
     g\<lparr>calls := calls g @ concat (map (recordCalls T g) rs),
       world := world g - bullet ` set rs,
       bullets := fold (\<lambda>r bs. removeFrom bs (bullet r)) rs (bullets g)\<rparr>"
  using assms
proof (induction rs arbitrary: g)
  case Nil
  then show ?case by simp
next
  case (Cons r rs)
  then obtain b where b: "heap g (bullet r) = Some (BulletO b)" by auto
  let ?g1 = "g\<lparr>calls := calls g @ recordCalls T g r, world := world g - {bullet r},
       bullets := removeFrom (bullets g) (bullet r)\<rparr>"
  have h: "heap ?g1 = heap g" by simp
  have "\<forall>r \<in> set rs. \<exists>b. heap ?g1 (bullet r) = Some (BulletO b)"
    using Cons.prems by simp
  from Cons.IH [OF this]
  have i: "fold (applyDamageRecord T) rs ?g1 =
     ?g1\<lparr>calls := calls ?g1 @ concat (map (recordCalls T ?g1) rs),
       world := world ?g1 - bullet ` set rs,
       bullets := fold (\<lambda>r bs. removeFrom bs (bullet r)) rs (bullets ?g1)\<rparr>" .
  have w: "world g - {bullet r} - bullet ` set rs = world g - insert (bullet r) (bullet ` set rs)"
    by auto
  have s1: "fold (applyDamageRecord T) (r # rs) g = fold (applyDamageRecord T) rs ?g1"
    by (simp add: applyDamageRecord_bullet [OF b])
  show ?case
    unfolding s1 i by (simp add: recordCalls_heap [OF h] w)
qed

lemma count_recordCalls:
  "count_list (concat (map (recordCalls T g) rs)) (DestroyBody b) =
     length (filter (\<lambda>r. bullet r = b) rs)"
  by (induction rs) (simp_all add: recordCalls_def)

lemma count_damage_calls:
  "length (filter (\<lambda>c. \<exists>t d s. c = DamageCall t d s) (concat (map (recordCalls T g) rs))) =
     length rs"
  by (induction rs) (simp_all add: recordCalls_def)

lemma set_fold_removeFrom:
  "set (fold (\<lambda>r bs. removeFrom bs (bullet r)) rs bs) \<subseteq> set bs"
proof (induction rs arbitrary: bs)
  case Nil
  then show ?case by simp
next
  case (Cons r rs)
  have "set (removeFrom bs (bullet r)) \<subseteq> set bs"
    by (simp add: removeFrom_def set_remove1_subset)
  with Cons.IH [of "removeFrom bs (bullet r)"] show ?case by auto
qed

lemma removed_all:
  assumes "distinct bs" and "r \<in> set rs"
  shows "bullet r \<notin> set (fold (\<lambda>r bs. removeFrom bs (bullet r)) rs bs)"
  using assms
proof (induction rs arbitrary: bs)
  case Nil
  then show ?case by simp
next
  case (Cons x rs)
  have d: "distinct (removeFrom bs (bullet x))"
    using Cons.prems(1) by (simp add: removeFrom_def)
  show ?case
  proof (cases "r = x")
    case True
    have "bullet x \<notin> set (removeFrom bs (bullet x))"
      using Cons.prems(1) by (simp add: removeFrom_def)
    with set_fold_removeFrom [of rs "removeFrom bs (bullet x)"] True show ?thesis by auto
  next
    case False
    with Cons.prems have "r \<in> set rs" by simp
    from Cons.IH [OF d this] show ?thesis by simp
  qed
qed

text \<open>
  Claim C3, as amended. The drain of a tick consumes every queued record exactly once, in
  the order of the queue: for each record it applies the damage of the record's bullet to
  the record's target once, calls \<open>destroyBody\<close> on the bullet once and removes the bullet
  from the live list. It does so per record, not per bullet: \<open>destroyBody\<close> is called on
  a bullet as many times as there are records of that bullet, and the damage of a bullet is
  applied once for each of its records, so once each exactly when the bullet has one record.
  After the drain no bullet of a record is in the live list (which holds each bullet once).
  The drain runs after the physics step and before the loop over the active players, and
  the tick ends with the queue empty. Every record holds a bullet, as the contact handler
  builds it.
\<close>

theorem drain_consumes_each_record:
  assumes "\<forall>r \<in> set (damageRecords g). \<exists>b. heap g (bullet r) = Some (BulletO b)"
  shows "calls (drainDamageRecords T g) =
           calls g @ concat (map (recordCalls T g) (damageRecords g))
     \<and> count_list (calls (drainDamageRecords T g)) (DestroyBody b) =
           count_list (calls g) (DestroyBody b)
             + length (filter (\<lambda>r. bullet r = b) (damageRecords g))
     \<and> length (filter (\<lambda>c. \<exists>t d s. c = DamageCall t d s)
                (concat (map (recordCalls T g) (damageRecords g)))) = length (damageRecords g)
     \<and> bullets (drainDamageRecords T g) =
           fold (\<lambda>r bs. removeFrom bs (bullet r)) (damageRecords g) (bullets g)
     \<and> (distinct (bullets g) \<longrightarrow>
           (\<forall>r \<in> set (damageRecords g). bullet r \<notin> set (bullets (drainDamageRecords T g))))
     \<and> beforeSend T U S g0 =
           firstLoop T U S (drainDamageRecords T
             (updateLootPositions (createAliveCounts (worldStep S g0))))
     \<and> (active g0 \<longrightarrow> damageRecords (tick T U S g0) = [])"
proof -
  have f: "drainDamageRecords T g =
     g\<lparr>calls := calls g @ concat (map (recordCalls T g) (damageRecords g)),
       world := world g - bullet ` set (damageRecords g),
       bullets := fold (\<lambda>r bs. removeFrom bs (bullet r)) (damageRecords g) (bullets g)\<rparr>"
    unfolding drainDamageRecords_def using assms by (rule fold_applyDamageRecord)
  have c: "calls (drainDamageRecords T g) =
           calls g @ concat (map (recordCalls T g) (damageRecords g))"
    by (simp add: f)
  have n: "count_list (calls (drainDamageRecords T g)) (DestroyBody b) =
           count_list (calls g) (DestroyBody b)
             + length (filter (\<lambda>r. bullet r = b) (damageRecords g))"
    by (simp add: c count_recordCalls)
  have bs: "bullets (drainDamageRecords T g) =
           fold (\<lambda>r bs. removeFrom bs (bullet r)) (damageRecords g) (bullets g)"
    by (simp add: f)
  have gone: "distinct (bullets g) \<longrightarrow>
           (\<forall>r \<in> set (damageRecords g). bullet r \<notin> set (bullets (drainDamageRecords T g)))"
    using removed_all [of "bullets g"] by (auto simp add: bs)
  have t: "active g0 \<longrightarrow> damageRecords (tick T U S g0) = []"
    by (simp add: tick_def resetEverything_def)
  show ?thesis
    using c n bs gone t count_damage_calls [of T g "damageRecords g"]
    by (simp add: beforeSend_def)
qed

text \<open>
  The theorem at a game with one record: one call of \<open>damage\<close>, one of \<open>destroyBody\<close>,
  and the bullet is off the live list.
\<close>

theorem drain_consumes_each_record_witness:
  "damageRecords hitGame = [\<lparr>damaged = 1, damager = 0, bullet = 2\<rparr>]
   \<and> heap hitGame 2 = Some (BulletO m9) \<and> distinct (bullets hitGame) \<and> active hitGame
   \<and> calls (drainDamageRecords sampleTables hitGame) = [DamageCall 1 14 0, DestroyBody 2]
   \<and> count_list (calls (drainDamageRecords sampleTables hitGame)) (DestroyBody 2) = 1
   \<and> 2 \<notin> set (bullets (drainDamageRecords sampleTables hitGame))
   \<and> damageRecords (tick sampleTables sampleUtils sampleStep hitGame) = []"
proof -
  have r: "damageRecords hitGame = [\<lparr>damaged = 1, damager = 0, bullet = 2\<rparr>]"
    by (simp add: hitGame_def)
  have h: "heap hitGame 2 = Some (BulletO m9)"
    by (simp add: hitGame_def shotGame_def)
  have a: "\<forall>r \<in> set (damageRecords hitGame). \<exists>b. heap hitGame (bullet r) = Some (BulletO b)"
    by (simp add: r h)
  have d: "distinct (bullets hitGame)" and e: "calls hitGame = []" and ac: "active hitGame"
    by (simp_all add: hitGame_def shotGame_def emptyGame_def)
  have rc: "recordCalls sampleTables hitGame \<lparr>damaged = 1, damager = 0, bullet = 2\<rparr> =
      [DamageCall 1 14 0, DestroyBody 2]"
    by (simp add: recordCalls_def recordDamage_def h m9_def sampleTables_def)
  note t = drain_consumes_each_record [OF a, of sampleTables 2 sampleUtils sampleStep hitGame]
  have c: "calls (drainDamageRecords sampleTables hitGame) = [DamageCall 1 14 0, DestroyBody 2]"
    using t r e rc by simp
  have n: "count_list (calls (drainDamageRecords sampleTables hitGame)) (DestroyBody 2) = 1"
    using c by simp
  have g: "2 \<notin> set (bullets (drainDamageRecords sampleTables hitGame))"
  proof -
    from t d have "\<forall>r \<in> set (damageRecords hitGame).
        bullet r \<notin> set (bullets (drainDamageRecords sampleTables hitGame))"
      by blast
    then show ?thesis by (simp add: r)
  qed
  have k: "damageRecords (tick sampleTables sampleUtils sampleStep hitGame) = []"
    using t ac by simp
  from r h d ac c n g k show ?thesis by blast
qed

text \<open>
  Claim C3 as stated fails: a bullet that begins to touch two players in one step of the
  physics gets two records, and the drain damages both players and calls \<open>destroyBody\<close>
  on the bullet twice.
\<close>

theorem double_contact_counterexample:
  "damageRecords (worldStep shotStep shotGame) =
     [\<lparr>damaged = 1, damager = 0, bullet = 2\<rparr>, \<lparr>damaged = 3, damager = 0, bullet = 2\<rparr>]
   \<and> calls (drainDamageRecords sampleTables (worldStep shotStep shotGame)) =
       [DamageCall 1 14 0, DestroyBody 2, DamageCall 3 14 0, DestroyBody 2]"
  by (simp add: drainDamageRecords_def applyDamageRecord_def worldStep_def beginContact_def
        removeFrom_def shotStep_def sampleStep_def shotGame_def emptyGame_def samplePlayer_def
        m9_def sampleTables_def)

section \<open>The melee attack\<close>





















section \<open>Dirty objects and the registry\<close>

lemmas tick_defs = beforeSend_def firstLoop_def playerLogic_def animationLogic_def
  weaponLogic_def actionLogic_def adrenalineLogic_def adrenaline_def pickUpNearby_def
  touchLoot_def movement_def movementVelocity_def drainDamageRecords_def
  updateLootPositions_def updateLootPosition_def createAliveCounts_def worldStep_def
  interact_def finishPickup_def interactBranch_def pickUpStack_def capacityAt_def
  sendPickup_def deleteLoot_def markPlayerDirty_def markInventory_def setPlayer_def
  setObj_def lootAt_def playerAt_def call_def removeFrom_def startsWith_def endsWith_def
  moveObj_def

lemmas touch_defs = touchGame_def pushStep_def sampleStep_def emptyGame_def samplePlayer_def
  sampleTables_def sampleUtils_def bandages_def

text \<open>
  Claim C4. Every object in \<open>partialDirtyObjects\<close> is to be in the registry when the
  connections are served, also a loot that moved and was then picked up in the same tick.
  On the code it is not: in \<open>touchGame\<close> the physics moves the bandages (reference 1), so
  the loop over the loot marks them partially dirty; the mobile player then touches them
  and \<open>Loot.interact\<close> removes them from the registry and pushes them into
  \<open>deletedObjects\<close>, but leaves them in \<open>partialDirtyObjects\<close>. When the second loop
  starts, the bandages are partially dirty, deleted, and not in the registry.
\<close>

theorem touch_pickup_leaves_dirty:
  "1 \<in> set (partialDirtyObjects (beforeSend sampleTables sampleUtils pushStep touchGame))
   \<and> 1 \<notin> set (objects (beforeSend sampleTables sampleUtils pushStep touchGame))
   \<and> 1 \<in> set (deletedObjects (beforeSend sampleTables sampleUtils pushStep touchGame))"
  by (simp add: tick_defs touch_defs Let_def)

text \<open>
  \<open>removePlayer\<close>, where it deletes a player, does take it out of both dirty lists.
\<close>

lemma removePlayer_cleans:
  assumes "playerAt g p = Some pl" and "inventoryEmpty pl"
  shows "partialDirtyObjects (removePlayer p g) = removeFrom (partialDirtyObjects g) p
     \<and> fullDirtyObjects (removePlayer p g) = removeFrom (fullDirtyObjects g) p
     \<and> objects (removePlayer p g) = removeFrom (objects g) p
     \<and> deletedObjects (removePlayer p g) = deletedObjects g @ [p]"
  using assms by (simp add: removePlayer_def Let_def)

end
